theory Spec2Isabelle
  imports Main "HOL-Library.AList"
begin

section \<open>Contract structure and its editing operations\<close>

text \<open>
  The contract structure proposed by the agent, as the components read it:
  \<^verbatim>\<open>{section_heading, section_purpose, subsections: [{subsection_heading, subsection_definition}]}\<close>.
\<close>

record contract_subsection =
  subsection_heading :: string
  subsection_definition :: string

record contract_section =
  section_heading :: string
  section_purpose :: string
  subsections :: "contract_subsection list"

text \<open>
  What a click handler of \<^verbatim>\<open>ContractSectionsDisplay.jsx\<close> does with the section list:
  it throws a TypeError (reading a property of \<^verbatim>\<open>undefined\<close>, when the section index is
  out of range), it shows a blocking alert and returns, or it calls
  \<^verbatim>\<open>setContractSections\<close> with a new list.
\<close>

datatype js_exception = TypeError

datatype edit_result = Threw js_exception | Alert string | Updated "contract_section list"

text \<open>\<^verbatim>\<open>xs.filter((_, i) => i !== k)\<close>: keep the elements whose index is not \<open>k\<close>.\<close>

definition filter_index :: "nat \<Rightarrow> 'a list \<Rightarrow> 'a list" where
  "filter_index k xs = map fst (filter (\<lambda>(x, i). i \<noteq> k) (zip xs [0..<length xs]))"

text \<open>
  \<^verbatim>\<open>
  const deleteSubsection = (sectionIndex, subsectionIndex) => {
    const section = contractSections[sectionIndex];
    if (section.subsections.length <= 1) {
      alert("At least one subsection is required");
      return;
    }
    const updatedSections = [...contractSections];
    updatedSections[sectionIndex].subsections =
      updatedSections[sectionIndex].subsections.filter((_, i) => i !== subsectionIndex);
    setContractSections(updatedSections);
  };
  \<close>
\<close>

definition deleteSubsection :: "contract_section list \<Rightarrow> nat \<Rightarrow> nat \<Rightarrow> edit_result" where
  "deleteSubsection contractSections sectionIndex subsectionIndex =
     (if length contractSections \<le> sectionIndex then Threw TypeError
      else let sec = contractSections ! sectionIndex in
        if length (subsections sec) \<le> 1 then Alert ''At least one subsection is required''
        else Updated (contractSections[sectionIndex :=
               sec\<lparr>subsections := filter_index subsectionIndex (subsections sec)\<rparr>]))"

text \<open>
  The spread copies the array, not the section objects, so the assignment to
  \<^verbatim>\<open>subsections\<close> also changes the section object of the old array; the old array is
  dropped by \<^verbatim>\<open>setContractSections\<close>, and the model keeps the new list only.
\<close>

text \<open>
  The section list after one click on a subsection's Delete button: the new list when the
  handler reached \<^verbatim>\<open>setContractSections\<close>, the old one when it returned early or threw.
\<close>

definition sections_after :: "contract_section list \<Rightarrow> edit_result \<Rightarrow> contract_section list" where
  "sections_after contractSections r = (case r of Updated s \<Rightarrow> s | _ \<Rightarrow> contractSections)"

text \<open>A sequence of delete clicks, each given as (section index, subsection index).\<close>

fun delete_clicks :: "contract_section list \<Rightarrow> (nat \<times> nat) list \<Rightarrow> contract_section list" where
  "delete_clicks contractSections [] = contractSections"
| "delete_clicks contractSections ((i, j) # clicks) =
     delete_clicks (sections_after contractSections (deleteSubsection contractSections i j)) clicks"


text \<open>
  The other edits of the same component (the field argument is one of the two literals the
  component passes):
  \<^verbatim>\<open>
  const deleteSection = (index) => {
    setContractSections(contractSections.filter((_, i) => i !== index));
  };
  const updateSection = (index, field, value) => {
    const updatedSections = [...contractSections];
    updatedSections[index][field] = value;
    setContractSections(updatedSections);
  };
  \<close>
\<close>

definition deleteSection :: "contract_section list \<Rightarrow> nat \<Rightarrow> edit_result" where
  "deleteSection contractSections index = Updated (filter_index index contractSections)"

datatype section_field = Field_section_heading | Field_section_purpose

definition updateSection ::
  "contract_section list \<Rightarrow> nat \<Rightarrow> section_field \<Rightarrow> string \<Rightarrow> edit_result" where
  "updateSection contractSections index field v =
     (if length contractSections \<le> index then Threw TypeError
      else Updated (contractSections[index :=
             (case field of
                Field_section_heading \<Rightarrow> (contractSections ! index)\<lparr>section_heading := v\<rparr>
              | Field_section_purpose \<Rightarrow> (contractSections ! index)\<lparr>section_purpose := v\<rparr>)]))"

section \<open>Strings as the JavaScript code reads them\<close>

text \<open>
  A string is a list of code units below 256. \<^verbatim>\<open>trim()\<close> and the regular expression
  class \<^verbatim>\<open>\s\<close> remove the white space and line terminators of ECMAScript; in this
  range they are tab, line feed, vertical tab, form feed, carriage return, space and the
  no-break space.
\<close>

definition is_space :: "char \<Rightarrow> bool" where
  "is_space c = (c \<in> {CHR 0x09, CHR 0x0A, CHR 0x0B, CHR 0x0C, CHR 0x0D, CHR 0x20, CHR 0xA0})"

definition trim :: "string \<Rightarrow> string" where
  "trim s = rev (dropWhile is_space (rev (dropWhile is_space s)))"

text \<open>\<^verbatim>\<open>!s.trim()\<close>: the trimmed string is the empty string.\<close>

definition blank :: "string \<Rightarrow> bool" where
  "blank s = (trim s = [])"

text \<open>
  A value that is a string or is missing (\<^verbatim>\<open>undefined\<close>, or \<^verbatim>\<open>null\<close> from JSON) is a
  \<open>string option\<close>. It is truthy when it is a non-empty string.
\<close>

definition truthy :: "string option \<Rightarrow> bool" where
  "truthy v = (case v of None \<Rightarrow> False | Some s \<Rightarrow> s \<noteq> [])"

text \<open>\<^verbatim>\<open>v || d\<close> for a string \<open>d\<close>.\<close>

definition js_or :: "string option \<Rightarrow> string \<Rightarrow> string" where
  "js_or v d = (case v of None \<Rightarrow> d | Some s \<Rightarrow> if s = [] then d else s)"

text \<open>
  \<^verbatim>\<open>`${v}`\<close> and the conversion of \<open>v\<close> to a property key: a missing value of the store
  is \<^verbatim>\<open>undefined\<close> and reads as the string "undefined".
\<close>

definition str_of :: "string option \<Rightarrow> string" where
  "str_of v = (case v of None \<Rightarrow> ''undefined'' | Some s \<Rightarrow> s)"

fun starts_with :: "string \<Rightarrow> string \<Rightarrow> bool" where
  "starts_with s [] = True"
| "starts_with [] (p # ps) = False"
| "starts_with (c # cs) (p # ps) = (c = p \<and> starts_with cs ps)"

text \<open>\<^verbatim>\<open>s.includes(sub)\<close>\<close>

fun js_includes :: "string \<Rightarrow> string \<Rightarrow> bool" where
  "js_includes [] sub = (sub = [])"
| "js_includes (c # cs) sub = (starts_with (c # cs) sub \<or> js_includes cs sub)"

section \<open>The draft registry\<close>

text \<open>
  The \<^verbatim>\<open>drafts\<close> object: section heading to draft text, as the list of its entries in
  the order \<^verbatim>\<open>Object.entries\<close> enumerates them (insertion order, for keys that are not
  array indices). A value is \<open>None\<close> when the stored value is \<^verbatim>\<open>undefined\<close>.
  \<^verbatim>\<open>{...prev, [k]: v}\<close> is \<^const>\<open>AList.update\<close>: the entry of an existing key is
  replaced in place, a new key is added at the end. \<^verbatim>\<open>prev[k]\<close> is \<^const>\<open>map_of\<close>.
\<close>

type_synonym registry = "(string \<times> string option) list"

definition placeholder :: string where
  "placeholder = ''Currently we have not completed this section.''"

text \<open>
  The effect of the provider, which React runs after every render in which
  \<^verbatim>\<open>contractSections\<close> is a new array:
  \<^verbatim>\<open>
  useEffect(() => {
    if (contractSections.length > 0) {
      contractSections.forEach((step) => {
        setDrafts((prev) => ({
          ...prev,
          [step.section_heading]: `Currently we have not completed this section.`,
        }));
      });
    }
  }, [contractSections]);
  \<close>
\<close>

definition sections_effect :: "contract_section list \<Rightarrow> registry \<Rightarrow> registry" where
  "sections_effect contractSections prev =
     (if length contractSections > 0
      then foldl (\<lambda>d step. AList.update (section_heading step) (Some placeholder) d)
             prev contractSections
      else prev)"

section \<open>The conversation state store\<close>

datatype role = User | Assistant

record turn =
  role :: role
  content :: "string option"
  reason :: "string option"
  turn_section :: "string option"
  turn_subsection :: "string option"

text \<open>
  The values of \<^verbatim>\<open>initialChatStep\<close> that the code assigns: "idea-submission",
  "question-response", "structure-review" and "done" (set by the Start Drafting button;
  the draft chat is rendered in this stage).
\<close>

datatype stage = IdeaSubmission | QuestionResponse | StructureReview | Done

record user_context =
  uc_user_id :: string
  uc_department :: string
  uc_role :: string
  uc_location :: string
  uc_language :: string

record chat_state =
  messages :: "turn list"
  draftMessages :: "turn list"
  drafts :: registry
  input :: string
  initialChatStep :: stage
  contractSections :: "contract_section list"
  session_id :: "string option"
  titles :: "string list"
  selectedTitle :: "string option"
  rephrasedIdea :: "string option"
  activeSection :: "string option"
  isReviewedSectionDraftActive :: bool
  isDraftingComplete :: bool
  userContext :: "user_context option"
  loading :: bool

text \<open>
  \<^verbatim>\<open>setContractSections(secs)\<close> with a new array, followed by the provider's effect on
  the registry. Every call site passes a new array (a parsed reply, the result of
  \<^verbatim>\<open>filter\<close>, a spread copy).
\<close>

definition setContractSections :: "contract_section list \<Rightarrow> chat_state \<Rightarrow> chat_state" where
  "setContractSections secs st =
     st\<lparr>contractSections := secs, drafts := sections_effect secs (drafts st)\<rparr>"

text \<open>A click handler of the structure view, run on the store.\<close>

definition apply_edit :: "edit_result \<Rightarrow> chat_state \<Rightarrow> chat_state" where
  "apply_edit r st = (case r of Updated secs \<Rightarrow> setContractSections secs st | _ \<Rightarrow> st)"

text \<open>
  The body of \<^verbatim>\<open>POST /chat\<close>:
  \<^verbatim>\<open>{session_id, query, is_interrupt, idea_structuring: {idea, title, all_sections, user_context}}\<close>.
\<close>

record idea_structuring =
  idea :: "string option"
  title :: "string option"
  all_sections :: "contract_section list"
  user_context :: "user_context option"

record request =
  req_session_id :: "string option"
  query :: "string option"
  is_interrupt :: bool
  req_idea_structuring :: idea_structuring

definition chat_request :: "chat_state \<Rightarrow> string option \<Rightarrow> bool \<Rightarrow> request" where
  "chat_request st userInput interrupt =
     \<lparr>req_session_id = session_id st, query = userInput, is_interrupt = interrupt,
      req_idea_structuring =
        \<lparr>idea = rephrasedIdea st, title = selectedTitle st,
         all_sections = contractSections st, user_context = userContext st\<rparr>\<rparr>"

text \<open>
  The decoded reply, a JSON object. The fields the handlers read are strings when present;
  \<open>res_all_sections\<close> is the section array of a structure review; \<open>res_all_drafts\<close> is
  \<^verbatim>\<open>res?.final_state?.all_drafts\<close>, \<open>None\<close> when it is missing.
\<close>

record response =
  res_type :: "string option"
  res_action :: "string option"
  res_question :: "string option"
  res_reason :: "string option"
  res_section :: "string option"
  res_subsection :: "string option"
  res_draft :: "string option"
  res_session_id :: "string option"
  res_all_sections :: "contract_section list"
  res_title :: "string option"
  res_idea :: "string option"
  res_all_drafts :: "registry option"

text \<open>
  What \<^verbatim>\<open>await chatWithDraftAgent(...)\<close> and the decoding that follows come to:
  \<^item> \<open>Rejected m\<close>: \<^verbatim>\<open>chatWithDraftAgent\<close> threw an error with message \<open>m\<close>
    (\<^verbatim>\<open>fetch\<close> failed, the status was not 2xx: "HTTP error! status: ...", or the
    body had no data event: "Empty response from server");
  \<^item> \<open>Unparsable m\<close>: \<^verbatim>\<open>JSON.parse\<close> threw an error with message \<open>m\<close>;
  \<^item> \<open>DecodedNull m\<close>: the body decoded to \<^verbatim>\<open>null\<close>, and reading a field of it throws a
    TypeError with message \<open>m\<close>;
  \<^item> \<open>Decoded res\<close>: the body decoded to the object \<open>res\<close>.
\<close>

datatype reply = Rejected string | Unparsable string | DecodedNull string | Decoded response

definition user_turn :: "string \<Rightarrow> turn" where
  "user_turn t =
     \<lparr>role = User, content = Some t, reason = None, turn_section = None, turn_subsection = None\<rparr>"

definition assistant_turn :: "string \<Rightarrow> turn" where
  "assistant_turn t =
     \<lparr>role = Assistant, content = Some t, reason = None, turn_section = None,
      turn_subsection = None\<rparr>"

text \<open>
  The message of the error turn of \<^verbatim>\<open>handleSend\<close>:
  \<^verbatim>\<open>
  const errorMessage = error.message || "An unexpected error occurred";
  let userErrorMessage = "I apologize, but I encountered an error. Please try again.";
  if (errorMessage.includes("Failed to fetch") || errorMessage.includes("Network Error")) {
    userErrorMessage = "Network connection error. Please check your internet connection and try again.";
  } else if (errorMessage.includes("Empty response")) {
    userErrorMessage = "The server returned an empty response. Please try again.";
  } else if (errorMessage.includes("HTTP error")) {
    userErrorMessage = "Server connection error. Please ensure the backend server is running.";
  }
  \<close>
\<close>

definition userErrorMessage :: "string \<Rightarrow> string" where
  "userErrorMessage thrown =
     (let errorMessage = (if thrown = [] then ''An unexpected error occurred'' else thrown) in
      if js_includes errorMessage ''Failed to fetch'' \<or> js_includes errorMessage ''Network Error''
      then ''Network connection error. Please check your internet connection and try again.''
      else if js_includes errorMessage ''Empty response''
      then ''The server returned an empty response. Please try again.''
      else if js_includes errorMessage ''HTTP error''
      then ''Server connection error. Please ensure the backend server is running.''
      else ''I apologize, but I encountered an error. Please try again.'')"

text \<open>The assistant turn of a clarifying question (\<^verbatim>\<open>handleSend\<close>, lines 80--86 and 123--129).\<close>

definition question_turn :: "response \<Rightarrow> turn" where
  "question_turn res =
     \<lparr>role = Assistant, content = res_question res, reason = res_reason res,
      turn_section = res_section res, turn_subsection = res_subsection res\<rparr>"

text \<open>
  \<^verbatim>\<open>
  setSession_id(res.session_id);
  setContractSections(res.all_sections);
  setSelectedTitle(res.title);
  setRephrasedIdea(res.idea);
  setInitialChatStep("structure-review");
  \<close>
\<close>

definition structure_review :: "response \<Rightarrow> chat_state \<Rightarrow> chat_state" where
  "structure_review res st =
     (setContractSections (res_all_sections res) (st\<lparr>session_id := res_session_id res\<rparr>))
       \<lparr>selectedTitle := res_title res, rephrasedIdea := res_idea res,
        initialChatStep := StructureReview\<rparr>"

text \<open>
  The two branches of \<^verbatim>\<open>handleSend\<close> on a decoded reply. In the stage "idea-submission"
  a question sets the stage to "question-response"; in the stage "question-response" it
  leaves the stage alone. A reply of type "end" is only logged.
\<close>

definition idea_submission_reply :: "response \<Rightarrow> chat_state \<Rightarrow> chat_state" where
  "idea_submission_reply res st =
     (if res_type res = Some ''interrupt'' then
        if res_action res = Some ''get_question_response''
        then st\<lparr>messages := messages st @ [question_turn res],
                initialChatStep := QuestionResponse\<rparr>
        else if res_action res = Some ''get_structure_review''
        then structure_review res st
        else st
      else st)"

definition question_response_reply :: "response \<Rightarrow> chat_state \<Rightarrow> chat_state" where
  "question_response_reply res st =
     (if res_type res = Some ''interrupt'' then
        if res_action res = Some ''get_question_response''
        then st\<lparr>messages := messages st @ [question_turn res]\<rparr>
        else if res_action res = Some ''get_structure_review''
        then structure_review res st
        else st
      else st)"

text \<open>
  \<^verbatim>\<open>handleSend\<close>, with the reply of the agent as an argument. The result is the store
  after the handler has finished (so \<^verbatim>\<open>loading\<close> is false again) and the request it
  issued, if any. The \<^verbatim>\<open>catch\<close> block replaces the transcript by
  \<^verbatim>\<open>[...updatedMessages, {role: "assistant", content: userErrorMessage}]\<close>.
\<close>

definition handleSend :: "reply \<Rightarrow> chat_state \<Rightarrow> chat_state \<times> request option" where
  "handleSend rep st =
     (if blank (input st) then (st, None)
      else
        let userInput = input st;
            updatedMessages = messages st @ [user_turn userInput];
            st1 = st\<lparr>messages := updatedMessages, input := [], loading := False\<rparr>;
            caught = (\<lambda>m. st1\<lparr>messages :=
                        updatedMessages @ [assistant_turn (userErrorMessage m)]\<rparr>)
        in
          if initialChatStep st = IdeaSubmission then
            ((case rep of
                Rejected m \<Rightarrow> caught m
              | Unparsable m \<Rightarrow> caught (''Failed to parse server response: '' @ m)
              | DecodedNull m \<Rightarrow> caught m
              | Decoded res \<Rightarrow> idea_submission_reply res st1),
             Some (chat_request st (Some userInput) False))
          else if initialChatStep st = QuestionResponse then
            ((case rep of
                Rejected m \<Rightarrow> caught m
              | Unparsable m \<Rightarrow> caught (''Failed to parse server response: '' @ m)
              | DecodedNull m \<Rightarrow> caught m
              | Decoded res \<Rightarrow> question_response_reply res st1),
             Some (chat_request st (Some userInput) True))
          else (st1, None))"

text \<open>
  The branches of \<^verbatim>\<open>handleDraftChat\<close> on a decoded reply (lines 194--220). \<open>st0\<close> is the
  store the handler was called in: \<^verbatim>\<open>drafts\<close> and \<^verbatim>\<open>activeSection\<close> are read from
  the handler's closure.
\<close>

definition newline :: char where
  "newline = CHR 0x0A"

definition draft_reply :: "response \<Rightarrow> chat_state \<Rightarrow> turn list \<Rightarrow> chat_state \<Rightarrow> chat_state" where
  "draft_reply res st0 updatedMessages st =
     (let action = res_action res;
          newDraft = AList.update (str_of (res_section res)) (res_draft res) (drafts st0);
          st2 = (if action \<noteq> Some ''generate_document''
                 then st\<lparr>activeSection := res_section res\<rparr> else st)
      in
        if action = Some ''generate_document'' \<and> res_all_drafts res \<noteq> None then
          (case res_all_drafts res of
             Some all_drafts \<Rightarrow>
               st2\<lparr>drafts := all_drafts, isDraftingComplete := True,
                   draftMessages := updatedMessages @ [assistant_turn
                     ''## **We have completed all the sections. Download the draft from draft section.**'']\<rparr>
           | None \<Rightarrow> st2)
        else if action = Some ''get_question_response'' then
          (let st3 = st2\<lparr>draftMessages := updatedMessages @
                       [\<lparr>role = Assistant, content = Some (str_of (res_question res)),
                         reason = Some (str_of (res_reason res)),
                         turn_section = None, turn_subsection = None\<rparr>]\<rparr>
           in if truthy (res_draft res) then st3\<lparr>drafts := newDraft\<rparr> else st3)
        else if action = Some ''get_reviewed_section_draft'' then
          st2\<lparr>isReviewedSectionDraftActive := True,
              draftMessages := updatedMessages @ [assistant_turn
                (''Please check the **'' @ str_of (activeSection st0) @ ''** section draft.''
                 @ [newline, newline]
                 @ ''If you like the draft click on the **Continue** button, or edit the draft'')],
              drafts := newDraft\<rparr>
        else if action = Some ''get_review_changes'' then
          st2\<lparr>draftMessages := updatedMessages @
                [assistant_turn ''Please reply with the changes you want to make.'']\<rparr>
        else st2)"

text \<open>
  \<^verbatim>\<open>handleDraftChat\<close>. The guard of line 164 returns before anything is done. The user
  turn is appended only when a section is active and no review is pending; on the
  continue path the query is the stored draft of the active section.
  \<^verbatim>\<open>setIsReviewedSectionDraftActive(false)\<close> follows the \<^verbatim>\<open>await\<close>, so it is skipped when
  \<^verbatim>\<open>chatWithDraftAgent\<close> throws.
\<close>

definition handleDraftChat :: "reply \<Rightarrow> chat_state \<Rightarrow> chat_state \<times> request option" where
  "handleDraftChat rep st =
     (if blank (input st) \<and> truthy (activeSection st) \<and> \<not> isReviewedSectionDraftActive st
      then (st, None)
      else
        let updatedMessages =
              (if truthy (activeSection st) \<and> \<not> isReviewedSectionDraftActive st
               then draftMessages st @ [user_turn (input st)] else draftMessages st);
            userInput =
              (if isReviewedSectionDraftActive st
               then (case map_of (drafts st) (str_of (activeSection st)) of
                       None \<Rightarrow> None | Some v \<Rightarrow> v)
               else Some (input st));
            st1 = st\<lparr>draftMessages := updatedMessages, input := [], loading := False\<rparr>;
            caught = (\<lambda>s. s\<lparr>draftMessages := updatedMessages @ [assistant_turn
                         ''I apologize, but I encountered an error. Please try again.'']\<rparr>)
        in
          ((case rep of
              Rejected m \<Rightarrow> caught st1
            | Unparsable m \<Rightarrow> caught (st1\<lparr>isReviewedSectionDraftActive := False\<rparr>)
            | DecodedNull m \<Rightarrow> caught (st1\<lparr>isReviewedSectionDraftActive := False\<rparr>)
            | Decoded res \<Rightarrow>
                draft_reply res st updatedMessages (st1\<lparr>isReviewedSectionDraftActive := False\<rparr>)),
           Some (chat_request st userInput True)))"

section \<open>The document exporter\<close>

text \<open>
  The two paragraph shapes of \<^verbatim>\<open>createFormattedSection\<close>: the heading (one bold run,
  colour 2F5496, size 32, Calibri) and a body paragraph (one run, size 22, Calibri, line
  spacing 276).
\<close>

datatype block = Heading string | Body string

text \<open>
  \<^verbatim>\<open>content.split(/\n+/)\<close>: the pieces between maximal runs of line feeds. The first
  argument is the piece being read, the second says that the last code unit read was a
  line feed.
\<close>

fun split_newlines :: "string \<Rightarrow> bool \<Rightarrow> string \<Rightarrow> string list" where
  "split_newlines cur in_run [] = [cur]"
| "split_newlines cur in_run (c # cs) =
     (if c = newline
      then (if in_run then split_newlines cur True cs else cur # split_newlines [] True cs)
      else split_newlines (cur @ [c]) False cs)"

text \<open>
  \<^verbatim>\<open>
  const createFormattedSection = (title, content) => {
    const paragraphs = [];
    paragraphs.push(new Paragraph({ children: [new TextRun({ text: title, bold: true, ... })], ... }));
    const lines = content.split(/\n+/).filter(Boolean);
    for (const line of lines) {
      paragraphs.push(new Paragraph({ children: [new TextRun({ text: line, size: 22, ... })], ... }));
    }
    return paragraphs;
  };
  \<close>
\<close>

definition createFormattedSection :: "string \<Rightarrow> string \<Rightarrow> block list" where
  "createFormattedSection t c =
     Heading t # map Body (filter (\<lambda>line. line \<noteq> []) (split_newlines [] False c))"

text \<open>
  \<^verbatim>\<open>Object.entries(drafts).flatMap(([title, content]) => createFormattedSection(title, content))\<close>.
  A content that is \<^verbatim>\<open>undefined\<close> has no \<^verbatim>\<open>split\<close>: the call throws a TypeError.
\<close>

fun formatted_sections :: "registry \<Rightarrow> js_exception + block list" where
  "formatted_sections [] = Inr []"
| "formatted_sections ((t, None) # entries) = Inl TypeError"
| "formatted_sections ((t, Some c) # entries) =
     (case formatted_sections entries of
        Inl e \<Rightarrow> Inl e
      | Inr blocks \<Rightarrow> Inr (createFormattedSection t c @ blocks))"

text \<open>
  The file the browser is asked to save: the blocks of the single section of the document,
  and the name given to \<^verbatim>\<open>link.download\<close>.
\<close>

record download =
  doc_children :: "block list"
  link_download :: string

text \<open>
  \<^verbatim>\<open>
  const generateDraftsDocx = async (drafts, pocTitle) => {
    ...
    const doc = new Document({ sections: [{ properties: {},
      children: Object.entries(drafts).flatMap(...) }] });
    const blob = await Packer.toBlob(doc);
    ...
    const docName = pocTitle || "draft";
    link.href = url;
    link.download = `${docName}.docx`;
    ...
    link.click();
  };
  \<close>
\<close>

definition generateDraftsDocx :: "registry \<Rightarrow> string option \<Rightarrow> js_exception + download" where
  "generateDraftsDocx ds pocTitle =
     (case formatted_sections ds of
        Inl e \<Rightarrow> Inl e
      | Inr blocks \<Rightarrow>
          Inr \<lparr>doc_children = blocks, link_download = js_or pocTitle ''draft'' @ ''.docx''\<rparr>)"

text \<open>
  The Download button of the draft panel, rendered when drafting is complete:
  \<^verbatim>\<open>onClick={() => generateDraftsDocx(drafts, selectedTitle)}\<close>. \<open>None\<close>: there is no
  button. An exception of the exporter is an unhandled rejection: no alert, no file.
\<close>

definition download_button :: "chat_state \<Rightarrow> (js_exception + download) option" where
  "download_button st =
     (if isDraftingComplete st then Some (generateDraftsDocx (drafts st) (selectedTitle st))
      else None)"

text \<open>
  A value of the finished contract, which comes from \<^verbatim>\<open>JSON.parse\<close>: a string, or any
  other value (a missing field, \<^verbatim>\<open>null\<close>, a number, a boolean, an array, an object),
  given by its truthiness and by the string that a template literal or a property key
  makes of it. No value but a string has the methods \<^verbatim>\<open>split\<close> and \<^verbatim>\<open>replace\<close>.
\<close>

datatype jvalue = JText string | JOther bool string

definition js_undefined :: jvalue where
  "js_undefined = JOther False ''undefined''"

definition js_null :: jvalue where
  "js_null = JOther False ''null''"

fun js_truthy :: "jvalue \<Rightarrow> bool" where
  "js_truthy (JText t) = (t \<noteq> [])"
| "js_truthy (JOther b r) = b"

fun js_string :: "jvalue \<Rightarrow> string" where
  "js_string (JText t) = t"
| "js_string (JOther b r) = r"

text \<open>The value as the exporter's registry holds it: only a string can be split.\<close>

fun text_of :: "jvalue \<Rightarrow> string option" where
  "text_of (JText t) = Some t"
| "text_of (JOther b r) = None"

text \<open>
  The own properties of a plain object, in the order \<^verbatim>\<open>Object.entries\<close> enumerates them:
  the keys that are array indices (canonical decimal numerals below \<open>2\<^sup>3\<^sup>2 - 1\<close>) in
  ascending numeric order, then the other keys in the order of their creation.
\<close>

type_synonym js_object = "(string \<times> jvalue) list"

definition is_digit :: "char \<Rightarrow> bool" where
  "is_digit c = (48 \<le> (of_char c :: nat) \<and> (of_char c :: nat) \<le> 57)"

definition decimal :: "string \<Rightarrow> nat" where
  "decimal k = foldl (\<lambda>n c. 10 * n + ((of_char c :: nat) - 48)) 0 k"

definition array_index :: "string \<Rightarrow> nat option" where
  "array_index k =
     (case k of
        [] \<Rightarrow> None
      | c # cs \<Rightarrow>
          if list_all is_digit k \<and> (if c = CHR ''0'' then cs = [] else True)
             \<and> decimal k < 4294967295
          then Some (decimal k) else None)"

text \<open>A new property with the array index \<open>n\<close> goes before the first key that is a
  larger index or no index.\<close>

fun insert_index :: "nat \<Rightarrow> string \<Rightarrow> jvalue \<Rightarrow> js_object \<Rightarrow> js_object" where
  "insert_index n k v [] = [(k, v)]"
| "insert_index n k v ((k', v') # rest) =
     (case array_index k' of
        Some m \<Rightarrow>
          if m < n then (k', v') # insert_index n k v rest else (k, v) # (k', v') # rest
      | None \<Rightarrow> (k, v) # (k', v') # rest)"

text \<open>
  \<^verbatim>\<open>obj[k] = v\<close> on an object made by \<^verbatim>\<open>{}\<close>. The key "__proto__" is the accessor
  inherited from \<^verbatim>\<open>Object.prototype\<close>: the assignment creates no own property. An
  existing property keeps its place and takes the new value.
\<close>

definition js_put :: "string \<Rightarrow> jvalue \<Rightarrow> js_object \<Rightarrow> js_object" where
  "js_put k v obj =
     (if k = ''__proto__'' then obj
      else if k \<in> fst ` set obj then AList.update k v obj
      else (case array_index k of
              Some n \<Rightarrow> insert_index n k v obj
            | None \<Rightarrow> obj @ [(k, v)]))"

text \<open>
  The finished contract of the upload tab: \<^verbatim>\<open>{title, contract_title, sections: [{heading,
  content}], drafts}\<close>. A missing field of a section or of the contract is
  \<^const>\<open>js_undefined\<close>. \<open>fc_sections\<close> is \<open>None\<close> unless it is an array; an element of the
  array is \<open>None\<close> when it is \<^verbatim>\<open>null\<close>, so that reading a field of it throws.
  \<open>fc_drafts\<close> is \<open>None\<close> unless it is an object, and is then the list of its entries as
  \<^verbatim>\<open>Object.entries\<close> enumerates them.
\<close>

record final_section =
  fs_heading :: jvalue
  fs_content :: jvalue

record final_contract =
  fc_title :: jvalue
  fc_contract_title :: jvalue
  fc_sections :: "final_section option list option"
  fc_drafts :: "js_object option"

text \<open>
  \<^verbatim>\<open>finalContract.title || finalContract.contract_title || 'Generated Contract'\<close>
\<close>

definition contractTitle :: "final_contract \<Rightarrow> jvalue" where
  "contractTitle fc =
     (if js_truthy (fc_title fc) then fc_title fc
      else if js_truthy (fc_contract_title fc) then fc_contract_title fc
      else JText ''Generated Contract'')"

text \<open>\<^verbatim>\<open>`## ${section}\n\n${content}\n\n`\<close>\<close>

definition formatted_entry :: "string \<Rightarrow> jvalue \<Rightarrow> string" where
  "formatted_entry h c = ''## '' @ h @ [newline, newline] @ js_string c @ [newline, newline]"

text \<open>
  The loop that builds \<^verbatim>\<open>formattedContent\<close> from the sections array:
  \<^verbatim>\<open>
  finalContract.sections.forEach(section => {
    if (section.heading && section.content) {
      formattedContent += `## ${section.heading}\n\n${section.content}\n\n`;
    }
  });
  \<close>
\<close>

fun sections_content :: "final_section option list \<Rightarrow> js_exception + string" where
  "sections_content [] = Inr []"
| "sections_content (None # rest) = Inl TypeError"
| "sections_content (Some s # rest) =
     (case sections_content rest of
        Inl e \<Rightarrow> Inl e
      | Inr t \<Rightarrow>
          Inr ((if js_truthy (fs_heading s) \<and> js_truthy (fs_content s)
                then formatted_entry (js_string (fs_heading s)) (fs_content s) else []) @ t))"

definition formattedContent :: "final_contract \<Rightarrow> js_exception + string" where
  "formattedContent fc =
     (case fc_sections fc of
        Some secs \<Rightarrow> sections_content secs
      | None \<Rightarrow>
          (case fc_drafts fc of
             Some ds \<Rightarrow> Inr (concat (map (\<lambda>(k, v). formatted_entry k v) ds))
           | None \<Rightarrow> Inr []))"

text \<open>
  \<^verbatim>\<open>contractDrafts\<close>: in the sections branch
  \<^verbatim>\<open>
  finalContract.sections.forEach(section => {
    if (section.heading && section.content) {
      contractDrafts[section.heading] = section.content;
    }
  });
  \<close>
  starting from \<^verbatim>\<open>{}\<close>; otherwise the drafts object itself.
\<close>

fun sections_drafts :: "final_section option list \<Rightarrow> js_object \<Rightarrow> js_exception + js_object" where
  "sections_drafts [] obj = Inr obj"
| "sections_drafts (None # rest) obj = Inl TypeError"
| "sections_drafts (Some s # rest) obj =
     sections_drafts rest
       (if js_truthy (fs_heading s) \<and> js_truthy (fs_content s)
        then js_put (js_string (fs_heading s)) (fs_content s) obj else obj)"

definition contractDrafts :: "final_contract \<Rightarrow> js_exception + js_object" where
  "contractDrafts fc =
     (case fc_sections fc of
        Some secs \<Rightarrow> sections_drafts secs []
      | None \<Rightarrow> (case fc_drafts fc of Some ds \<Rightarrow> Inr ds | None \<Rightarrow> Inr []))"

text \<open>
  The name that \<^verbatim>\<open>handleDownloadContract\<close> computes and does not use:
  \<^verbatim>\<open>
  const filename = `${contractTitle.replace(/[^a-zA-Z0-9\s]/g, '').replace(/\s+/g, '_')}_Contract.docx`;
  \<close>
  When the title is not a string, \<^verbatim>\<open>contractTitle.replace\<close> is not a function and the
  statement throws a TypeError.
\<close>

definition is_alnum :: "char \<Rightarrow> bool" where
  "is_alnum c =
     (let n = (of_char c :: nat)
      in (48 \<le> n \<and> n \<le> 57) \<or> (65 \<le> n \<and> n \<le> 90) \<or> (97 \<le> n \<and> n \<le> 122))"

fun underscore_spaces :: "bool \<Rightarrow> string \<Rightarrow> string" where
  "underscore_spaces in_run [] = []"
| "underscore_spaces in_run (c # cs) =
     (if is_space c
      then (if in_run then underscore_spaces True cs else CHR ''_'' # underscore_spaces True cs)
      else c # underscore_spaces False cs)"

definition filename :: "final_contract \<Rightarrow> js_exception + string" where
  "filename fc =
     (case contractTitle fc of
        JText t \<Rightarrow>
          Inr (underscore_spaces False (filter (\<lambda>c. is_alnum c \<or> is_space c) t)
                 @ ''_Contract.docx'')
      | JOther b r \<Rightarrow> Inl TypeError)"

text \<open>
  What a click on the Download button of the upload tab comes to: the handler returns at
  once, shows a blocking alert with a fixed message, shows the alert of its \<^verbatim>\<open>catch\<close>
  block ("Error downloading contract. Please try again. Error details: ..."), or the
  exporter saves a file.
\<close>

datatype download_outcome =
  Returned | Alerted string | Alerted_error js_exception | Saved download

text \<open>
  \<^verbatim>\<open>
  const handleDownloadContract = async () => {
    if (!finalContract) return;
    try {
      const contractTitle = finalContract.title || finalContract.contract_title || 'Generated Contract';
      let formattedContent = '';
      ...
      if (!formattedContent.trim()) {
        alert('No contract content found to download. Please try generating the contract again.');
        return;
      }
      const filename = ...;
      let contractDrafts = {};
      ...
      await generateDraftsDocx(contractDrafts, contractTitle);
    } catch (error) {
      alert('Error downloading contract. Please try again. Error details: ' + error.message);
    }
  };
  \<close>
  Every exception of the \<^verbatim>\<open>try\<close> block is caught: a \<^verbatim>\<open>null\<close> element of the sections
  array, a title that is not a string, a draft that is not a string.
\<close>

definition handleDownloadContract :: "final_contract option \<Rightarrow> download_outcome" where
  "handleDownloadContract finalContract =
     (case finalContract of
        None \<Rightarrow> Returned
      | Some fc \<Rightarrow>
          (case formattedContent fc of
             Inl e \<Rightarrow> Alerted_error e
           | Inr formatted \<Rightarrow>
               if blank formatted
               then Alerted ''No contract content found to download. Please try generating the contract again.''
               else
                 (case filename fc of
                    Inl e \<Rightarrow> Alerted_error e
                  | Inr unused \<Rightarrow>
                      (case contractDrafts fc of
                         Inl e \<Rightarrow> Alerted_error e
                       | Inr obj \<Rightarrow>
                           (case generateDraftsDocx (map (\<lambda>(k, v). (k, text_of v)) obj)
                                   (Some (js_string (contractTitle fc))) of
                              Inl e \<Rightarrow> Alerted_error e
                            | Inr d \<Rightarrow> Saved d)))))"

section \<open>Example data\<close>

definition intro_section :: contract_section where
  "intro_section =
     \<lparr>section_heading = ''Intro'', section_purpose = ''Context of the contract'',
      subsections = [\<lparr>subsection_heading = ''Purpose'', subsection_definition = ''Intent''\<rparr>]\<rparr>"

definition terms_section :: contract_section where
  "terms_section =
     \<lparr>section_heading = ''Terms'', section_purpose = ''Duration and payment'',
      subsections = [\<lparr>subsection_heading = ''Duration'', subsection_definition = ''Start and end''\<rparr>,
                     \<lparr>subsection_heading = ''Payment'', subsection_definition = ''Amounts''\<rparr>]\<rparr>"

text \<open>
  The store of a new provider (the initial values of its \<^verbatim>\<open>useState\<close> calls).
\<close>

definition initial_store :: chat_state where
  "initial_store =
     \<lparr>messages = [], draftMessages = [], drafts = [], input = [],
      initialChatStep = IdeaSubmission, contractSections = [], session_id = Some [],
      titles = [], selectedTitle = Some [], rephrasedIdea = Some [], activeSection = Some [],
      isReviewedSectionDraftActive = False, isDraftingComplete = False, userContext = None,
      loading = False\<rparr>"

definition question_reply :: response where
  "question_reply =
     \<lparr>res_type = Some ''interrupt'', res_action = Some ''get_question_response'',
      res_question = Some ''Who are the parties?'', res_reason = Some ''Needed for the preamble'',
      res_section = Some ''Intro'', res_subsection = Some ''Purpose'', res_draft = None,
      res_session_id = None, res_all_sections = [], res_title = None, res_idea = None,
      res_all_drafts = None\<rparr>"

definition review_reply :: response where
  "review_reply =
     \<lparr>res_type = Some ''interrupt'', res_action = Some ''get_structure_review'',
      res_question = None, res_reason = None, res_section = None, res_subsection = None,
      res_draft = None, res_session_id = Some ''s2'',
      res_all_sections = [intro_section, terms_section], res_title = Some ''My NDA!!'',
      res_idea = Some ''An NDA between two parties'', res_all_drafts = None\<rparr>"

definition document_reply :: response where
  "document_reply =
     \<lparr>res_type = None, res_action = Some ''generate_document'',
      res_question = None, res_reason = None, res_section = None, res_subsection = None,
      res_draft = None, res_session_id = None, res_all_sections = [], res_title = None,
      res_idea = None,
      res_all_drafts = Some [(''Intro'', Some ''Text one.''), (''Terms'', Some [])]\<rparr>"

text \<open>Finished contracts of the upload tab.\<close>

definition whitespace_contract :: final_contract where
  "whitespace_contract =
     \<lparr>fc_title = JText ''My NDA!!'', fc_contract_title = js_undefined, fc_sections = None,
      fc_drafts = Some [(''Intro'', JText ''  '')]\<rparr>"

definition unfilled_contract :: final_contract where
  "unfilled_contract =
     \<lparr>fc_title = js_undefined, fc_contract_title = js_undefined,
      fc_sections = Some [Some \<lparr>fs_heading = JText ''Intro'', fs_content = JText []\<rparr>],
      fc_drafts = Some [(''Intro'', JText ''Text one.'')]\<rparr>"

definition empty_contract :: final_contract where
  "empty_contract =
     \<lparr>fc_title = js_undefined, fc_contract_title = JText ''Lease'', fc_sections = None,
      fc_drafts = Some []\<rparr>"

definition null_draft_contract :: final_contract where
  "null_draft_contract =
     \<lparr>fc_title = JText ''Lease'', fc_contract_title = js_undefined, fc_sections = None,
      fc_drafts = Some [(''Intro'', js_null)]\<rparr>"

definition proto_contract :: final_contract where
  "proto_contract =
     \<lparr>fc_title = JText ''Lease'', fc_contract_title = js_undefined,
      fc_sections = Some [Some \<lparr>fs_heading = JText ''__proto__'', fs_content = JText ''Text one.''\<rparr>],
      fc_drafts = None\<rparr>"

definition numbered_contract :: final_contract where
  "numbered_contract =
     \<lparr>fc_title = JText ''Lease'', fc_contract_title = js_undefined,
      fc_sections = Some [Some \<lparr>fs_heading = JText ''Terms'', fs_content = JText ''B''\<rparr>,
                          Some \<lparr>fs_heading = JText ''10'', fs_content = JText ''C''\<rparr>,
                          Some \<lparr>fs_heading = JText ''2'', fs_content = JText ''A''\<rparr>],
      fc_drafts = None\<rparr>"

section \<open>Subsection floor\<close>

lemma length_filter_index:
  "length (filter_index k xs) = (if k < length xs then length xs - 1 else length xs)"
proof (induction xs rule: rev_induct)
  case Nil
  show ?case by (simp add: filter_index_def)
next
  case (snoc x xs)
  have "filter_index k (xs @ [x]) = filter_index k xs @ (if length xs = k then [] else [x])"
    by (simp add: filter_index_def)
  with snoc show ?case by (cases "k < length xs") auto
qed

lemma delete_step_length:
  "length (sections_after secs (deleteSubsection secs i j)) = length secs"
  by (simp add: sections_after_def deleteSubsection_def Let_def)

lemma delete_step_floor:
  assumes "k < length secs" and "1 \<le> length (subsections (secs ! k))"
  shows "1 \<le> length (subsections (sections_after secs (deleteSubsection secs i j) ! k))"
proof (cases "i < length secs \<and> 1 < length (subsections (secs ! i))")
  case False
  then show ?thesis using assms
    by (auto simp: sections_after_def deleteSubsection_def Let_def)
next
  case True
  then show ?thesis using assms
    by (cases "k = i")
       (auto simp: sections_after_def deleteSubsection_def Let_def length_filter_index)
qed

lemma delete_clicks_length: "length (delete_clicks secs clicks) = length secs"
  by (induction secs clicks rule: delete_clicks.induct) (simp_all add: delete_step_length)

lemma delete_clicks_floor:
  "k < length secs \<Longrightarrow> 1 \<le> length (subsections (secs ! k))
   \<Longrightarrow> 1 \<le> length (subsections (delete_clicks secs clicks ! k))"
proof (induction secs clicks rule: delete_clicks.induct)
  case (1 secs)
  then show ?case by simp
next
  case (2 secs i j clicks)
  let ?next = "sections_after secs (deleteSubsection secs i j)"
  have "k < length ?next"
    using "2.prems"(1) by (simp add: delete_step_length)
  moreover have "1 \<le> length (subsections (?next ! k))"
    using "2.prems" by (rule delete_step_floor)
  ultimately have "1 \<le> length (subsections (delete_clicks ?next clicks ! k))"
    by (rule "2.IH")
  then show ?case by simp
qed

text \<open>
  C1. Deleting a subsection of a section that has exactly one subsection is rejected: the
  handler alerts and returns, so the section list stays as it was. Hence, over every
  sequence of delete clicks, the number of sections is unchanged and every section that
  has at least one subsection keeps at least one.
\<close>

theorem C1_subsection_floor:
  "(i < length secs \<and> length (subsections (secs ! i)) = 1 \<longrightarrow>
      deleteSubsection secs i j = Alert ''At least one subsection is required''
      \<and> sections_after secs (deleteSubsection secs i j) = secs)
   \<and> length (delete_clicks secs clicks) = length secs
   \<and> (\<forall>k < length secs. 1 \<le> length (subsections (secs ! k)) \<longrightarrow>
          1 \<le> length (subsections (delete_clicks secs clicks ! k)))"
proof (intro conjI impI allI)
  assume one: "i < length secs \<and> length (subsections (secs ! i)) = 1"
  then show "deleteSubsection secs i j = Alert ''At least one subsection is required''"
    by (simp add: deleteSubsection_def)
  then show "sections_after secs (deleteSubsection secs i j) = secs"
    by (simp add: sections_after_def)
next
  show "length (delete_clicks secs clicks) = length secs"
    by (rule delete_clicks_length)
next
  fix k
  assume "k < length secs" and "1 \<le> length (subsections (secs ! k))"
  then show "1 \<le> length (subsections (delete_clicks secs clicks ! k))"
    by (rule delete_clicks_floor)
qed

theorem C1_subsection_floor_witness:
  "(0 < length [intro_section, terms_section]
      \<and> length (subsections ([intro_section, terms_section] ! 0)) = 1)
   \<and> deleteSubsection [intro_section, terms_section] 0 0
        = Alert ''At least one subsection is required''
   \<and> sections_after [intro_section, terms_section]
        (deleteSubsection [intro_section, terms_section] 0 0) = [intro_section, terms_section]
   \<and> length (delete_clicks [intro_section, terms_section] [(1, 0), (1, 0), (0, 0)]) = 2
   \<and> 1 \<le> length (subsections (terms_section))
   \<and> 1 \<le> length (subsections
              (delete_clicks [intro_section, terms_section] [(1, 0), (1, 0), (0, 0)] ! 1))"
proof -
  have one: "0 < length [intro_section, terms_section]
      \<and> length (subsections ([intro_section, terms_section] ! 0)) = 1"
    by (simp add: intro_section_def)
  have two: "1 \<le> length (subsections ([intro_section, terms_section] ! 1))"
    by (simp add: terms_section_def)
  note floor = C1_subsection_floor
    [of 0 "[intro_section, terms_section]" 0 "[(1, 0), (1, 0), (0, 0)]"]
  have two': "1 \<le> length (subsections (terms_section))"
    by (simp add: terms_section_def)
  from floor one have a: "deleteSubsection [intro_section, terms_section] 0 0
        = Alert ''At least one subsection is required''
      \<and> sections_after [intro_section, terms_section]
        (deleteSubsection [intro_section, terms_section] 0 0) = [intro_section, terms_section]"
    by blast
  from floor
  have b: "length (delete_clicks [intro_section, terms_section] [(1, 0), (1, 0), (0, 0)]) = 2"
    by simp
  from floor two
  have c: "1 \<le> length (subsections
              (delete_clicks [intro_section, terms_section] [(1, 0), (1, 0), (0, 0)] ! 1))"
    by simp
  from one a b two' c show ?thesis by blast
qed

section \<open>Blank submissions\<close>

text \<open>A string is blank exactly when each of its code units is white space.\<close>

lemma blank_iff: "blank s \<longleftrightarrow> (\<forall>c\<in>set s. is_space c)"
proof
  assume "blank s"
  then have "dropWhile is_space (rev (dropWhile is_space s)) = []"
    by (simp add: blank_def trim_def)
  then have "\<forall>c\<in>set (rev (dropWhile is_space s)). is_space c"
    by (simp only: dropWhile_eq_Nil_conv)
  then have all: "\<forall>c\<in>set (dropWhile is_space s). is_space c"
    by (simp only: set_rev)
  have "dropWhile is_space s = []"
  proof (rule ccontr)
    assume ne: "dropWhile is_space s \<noteq> []"
    then have "\<not> is_space (hd (dropWhile is_space s))" by (rule hd_dropWhile)
    moreover from ne have "hd (dropWhile is_space s) \<in> set (dropWhile is_space s)" by simp
    ultimately show False using all by blast
  qed
  then show "\<forall>c\<in>set s. is_space c" by (simp add: dropWhile_eq_Nil_conv)
next
  assume "\<forall>c\<in>set s. is_space c"
  then have "dropWhile is_space s = []" by (simp add: dropWhile_eq_Nil_conv)
  then show "blank s" by (simp only: blank_def trim_def rev.simps dropWhile.simps)
qed

text \<open>
  With no active section, or with a review pending, \<^verbatim>\<open>handleDraftChat\<close> appends no
  user turn: the transcript grows by at most one turn, of the assistant.
\<close>

lemma draft_chat_transcript:
  assumes "\<not> truthy (activeSection st) \<or> isReviewedSectionDraftActive st"
  shows "\<exists>rest. draftMessages (fst (handleDraftChat rep st)) = draftMessages st @ rest
           \<and> length rest \<le> 1 \<and> (\<forall>t\<in>set rest. role t = Assistant)"
  using assms
  by (cases rep)
     (auto simp: handleDraftChat_def Let_def draft_reply_def assistant_turn_def
        split: option.splits)

text \<open>
  C7, as the claim states it, fails in the draft chat. The only empty submission that the
  stage permits is the continue after a review; yet when the draft chat has just been
  opened (blank input, no active section, no review pending) \<^verbatim>\<open>handleDraftChat\<close> does
  not return at once: it sends the empty text to the agent and appends the agent's turn.
\<close>

theorem C7_blank_kickoff_issues_request:
  "blank (input (initial_store\<lparr>initialChatStep := Done\<rparr>))
   \<and> \<not> isReviewedSectionDraftActive (initial_store\<lparr>initialChatStep := Done\<rparr>)
   \<and> snd (handleDraftChat (Decoded question_reply) (initial_store\<lparr>initialChatStep := Done\<rparr>))
      = Some (chat_request (initial_store\<lparr>initialChatStep := Done\<rparr>) (Some []) True)
   \<and> draftMessages (fst (handleDraftChat (Decoded question_reply)
        (initial_store\<lparr>initialChatStep := Done\<rparr>)))
      = [\<lparr>role = Assistant, content = Some ''Who are the parties?'',
          reason = Some ''Needed for the preamble'', turn_section = None,
          turn_subsection = None\<rparr>]"
  by (simp add: handleDraftChat_def Let_def draft_reply_def initial_store_def question_reply_def
        truthy_def str_of_def blank_def trim_def)

text \<open>
  C7, amended. When every code unit of the input is white space (the empty input
  included), \<^verbatim>\<open>handleSend\<close> returns at once in every stage: the store is unchanged and
  no request is issued. \<^verbatim>\<open>handleDraftChat\<close> returns at once exactly when a section is
  active and no review is pending. Otherwise (no section is active yet, or a review is
  pending) it appends no user turn but issues a request: with the stored draft of the
  active section as the query when a review is pending, with the blank input itself when
  not.
\<close>

theorem C7_blank_submission:
  "((\<forall>c\<in>set (input st). is_space c) \<longrightarrow> handleSend rep st = (st, None))
   \<and> ((\<forall>c\<in>set (input st). is_space c) \<longrightarrow>
        (handleDraftChat rep st = (st, None)
           \<longleftrightarrow> truthy (activeSection st) \<and> \<not> isReviewedSectionDraftActive st))
   \<and> ((\<forall>c\<in>set (input st). is_space c)
        \<and> \<not> (truthy (activeSection st) \<and> \<not> isReviewedSectionDraftActive st) \<longrightarrow>
        snd (handleDraftChat rep st)
          = Some (chat_request st
              (if isReviewedSectionDraftActive st
               then (case map_of (drafts st) (str_of (activeSection st)) of
                       None \<Rightarrow> None | Some v \<Rightarrow> v)
               else Some (input st)) True)
        \<and> (\<exists>rest. draftMessages (fst (handleDraftChat rep st)) = draftMessages st @ rest
              \<and> length rest \<le> 1 \<and> (\<forall>t\<in>set rest. role t = Assistant)))"
proof (intro conjI impI)
  assume "\<forall>c\<in>set (input st). is_space c"
  then show "handleSend rep st = (st, None)"
    by (simp add: blank_iff [symmetric] handleSend_def)
next
  assume "\<forall>c\<in>set (input st). is_space c"
  then have "blank (input st)" by (simp add: blank_iff)
  then show "handleDraftChat rep st = (st, None)
      \<longleftrightarrow> truthy (activeSection st) \<and> \<not> isReviewedSectionDraftActive st"
    by (auto simp: handleDraftChat_def Let_def)
next
  assume a: "(\<forall>c\<in>set (input st). is_space c)
        \<and> \<not> (truthy (activeSection st) \<and> \<not> isReviewedSectionDraftActive st)"
  then show "snd (handleDraftChat rep st)
          = Some (chat_request st
              (if isReviewedSectionDraftActive st
               then (case map_of (drafts st) (str_of (activeSection st)) of
                       None \<Rightarrow> None | Some v \<Rightarrow> v)
               else Some (input st)) True)"
    by (simp add: handleDraftChat_def Let_def)
  from a have "\<not> truthy (activeSection st) \<or> isReviewedSectionDraftActive st" by blast
  then show "\<exists>rest. draftMessages (fst (handleDraftChat rep st)) = draftMessages st @ rest
              \<and> length rest \<le> 1 \<and> (\<forall>t\<in>set rest. role t = Assistant)"
    by (rule draft_chat_transcript)
qed

theorem C7_blank_submission_witness:
  "blank ''  '' \<and> truthy (Some ''Intro'')
   \<and> handleSend (Decoded question_reply)
        (initial_store\<lparr>input := ''  '', activeSection := Some ''Intro''\<rparr>)
      = (initial_store\<lparr>input := ''  '', activeSection := Some ''Intro''\<rparr>, None)
   \<and> handleDraftChat (Decoded question_reply)
        (initial_store\<lparr>input := ''  '', activeSection := Some ''Intro''\<rparr>)
      = (initial_store\<lparr>input := ''  '', activeSection := Some ''Intro''\<rparr>, None)
   \<and> snd (handleDraftChat (Decoded question_reply) (initial_store\<lparr>input := ''  ''\<rparr>))
      = Some (chat_request (initial_store\<lparr>input := ''  ''\<rparr>) (Some ''  '') True)"
proof -
  let ?st = "initial_store\<lparr>input := ''  '', activeSection := Some ''Intro''\<rparr>"
  let ?kick = "initial_store\<lparr>input := ''  ''\<rparr>"
  have sp: "\<forall>c\<in>set (input ?st). is_space c"
    by (simp add: is_space_def)
  have sp': "\<forall>c\<in>set (input ?kick). is_space c"
    by (simp add: is_space_def)
  have act: "truthy (activeSection ?st) \<and> \<not> isReviewedSectionDraftActive ?st"
    by (simp add: truthy_def initial_store_def)
  have idle: "\<not> (truthy (activeSection ?kick) \<and> \<not> isReviewedSectionDraftActive ?kick)"
    and nrev: "\<not> isReviewedSectionDraftActive ?kick"
    by (simp_all add: truthy_def initial_store_def)
  from sp have b: "blank ''  ''" by (simp add: blank_iff)
  have t: "truthy (Some ''Intro'')" by (simp add: truthy_def)
  from C7_blank_submission [of ?st "Decoded question_reply"] sp act
  have one: "handleSend (Decoded question_reply) ?st = (?st, None)"
    and two: "handleDraftChat (Decoded question_reply) ?st = (?st, None)"
    by blast+
  from C7_blank_submission [of ?kick "Decoded question_reply"] sp' idle
  have "snd (handleDraftChat (Decoded question_reply) ?kick)
          = Some (chat_request ?kick
              (if isReviewedSectionDraftActive ?kick
               then (case map_of (drafts ?kick) (str_of (activeSection ?kick)) of
                       None \<Rightarrow> None | Some v \<Rightarrow> v)
               else Some (input ?kick)) True)"
    by blast
  with nrev have three: "snd (handleDraftChat (Decoded question_reply) ?kick)
      = Some (chat_request ?kick (Some ''  '') True)"
    by simp
  from b t one two three show ?thesis by blast
qed

section \<open>Replies in the initial chat\<close>

text \<open>
  C4. In the stage "idea-submission" or "question-response", with a non-blank input, an
  interrupt reply with action \<^verbatim>\<open>get_question_response\<close> leaves the store in the stage
  "question-response" with the transcript extended by the user's turn and exactly one
  assistant turn carrying the question; an interrupt reply with action
  \<^verbatim>\<open>get_structure_review\<close> sets the stage to "structure-review" and replaces the section
  list, the title and the rephrased idea by those of the reply.
\<close>

theorem C4_interrupt_transitions:
  assumes "\<not> blank (input st)"
    and "initialChatStep st = IdeaSubmission \<or> initialChatStep st = QuestionResponse"
    and "res_type res = Some ''interrupt''"
  shows "(res_action res = Some ''get_question_response'' \<longrightarrow>
            initialChatStep (fst (handleSend (Decoded res) st)) = QuestionResponse
            \<and> messages (fst (handleSend (Decoded res) st))
                = messages st @ [user_turn (input st), question_turn res]
            \<and> role (question_turn res) = Assistant)
       \<and> (res_action res = Some ''get_structure_review'' \<longrightarrow>
            initialChatStep (fst (handleSend (Decoded res) st)) = StructureReview
            \<and> contractSections (fst (handleSend (Decoded res) st)) = res_all_sections res
            \<and> selectedTitle (fst (handleSend (Decoded res) st)) = res_title res
            \<and> rephrasedIdea (fst (handleSend (Decoded res) st)) = res_idea res)"
  using assms
  by (auto simp: handleSend_def Let_def idea_submission_reply_def question_response_reply_def
        structure_review_def setContractSections_def question_turn_def)

theorem C4_interrupt_transitions_witness:
  "\<not> blank ''Draft an NDA''
   \<and> initialChatStep (fst (handleSend (Decoded question_reply)
        (initial_store\<lparr>input := ''Draft an NDA''\<rparr>))) = QuestionResponse
   \<and> messages (fst (handleSend (Decoded question_reply)
        (initial_store\<lparr>input := ''Draft an NDA''\<rparr>)))
      = [user_turn ''Draft an NDA'', question_turn question_reply]
   \<and> initialChatStep (fst (handleSend (Decoded review_reply)
        (initial_store\<lparr>input := ''Draft an NDA''\<rparr>))) = StructureReview
   \<and> contractSections (fst (handleSend (Decoded review_reply)
        (initial_store\<lparr>input := ''Draft an NDA''\<rparr>))) = [intro_section, terms_section]
   \<and> selectedTitle (fst (handleSend (Decoded review_reply)
        (initial_store\<lparr>input := ''Draft an NDA''\<rparr>))) = Some ''My NDA!!''"
proof -
  let ?st = "initial_store\<lparr>input := ''Draft an NDA''\<rparr>"
  have nb: "\<not> blank (input ?st)"
    by (simp add: blank_iff is_space_def)
  have stg: "initialChatStep ?st = IdeaSubmission \<or> initialChatStep ?st = QuestionResponse"
    by (simp add: initial_store_def)
  have q: "res_type question_reply = Some ''interrupt''"
    and qa: "res_action question_reply = Some ''get_question_response''"
    by (simp_all add: question_reply_def)
  have r: "res_type review_reply = Some ''interrupt''"
    and ra: "res_action review_reply = Some ''get_structure_review''"
    by (simp_all add: review_reply_def)
  from C4_interrupt_transitions [OF nb stg q] qa
  have one: "initialChatStep (fst (handleSend (Decoded question_reply) ?st)) = QuestionResponse
      \<and> messages (fst (handleSend (Decoded question_reply) ?st))
          = messages ?st @ [user_turn (input ?st), question_turn question_reply]"
    by blast
  from C4_interrupt_transitions [OF nb stg r] ra
  have two: "initialChatStep (fst (handleSend (Decoded review_reply) ?st)) = StructureReview
      \<and> contractSections (fst (handleSend (Decoded review_reply) ?st))
          = res_all_sections review_reply
      \<and> selectedTitle (fst (handleSend (Decoded review_reply) ?st)) = res_title review_reply"
    by blast
  from nb have "\<not> blank ''Draft an NDA''" by simp
  moreover from one have "initialChatStep (fst (handleSend (Decoded question_reply) ?st))
      = QuestionResponse" by blast
  moreover from one have "messages (fst (handleSend (Decoded question_reply) ?st))
      = [user_turn ''Draft an NDA'', question_turn question_reply]"
    by (simp add: initial_store_def)
  moreover from two have "initialChatStep (fst (handleSend (Decoded review_reply) ?st))
      = StructureReview" by blast
  moreover from two have "contractSections (fst (handleSend (Decoded review_reply) ?st))
      = [intro_section, terms_section]" by (simp add: review_reply_def)
  moreover from two have "selectedTitle (fst (handleSend (Decoded review_reply) ?st))
      = Some ''My NDA!!''" by (simp add: review_reply_def)
  ultimately show ?thesis by blast
qed

section \<open>The terminal reply of the draft chat\<close>

text \<open>
  C5. When \<^verbatim>\<open>handleDraftChat\<close> goes through (it does not return at its guard) and the
  reply has action \<^verbatim>\<open>generate_document\<close> and carries a draft map, the registry becomes
  that map, the drafting-complete flag is true, and the draft transcript is the one the
  request was sent with, extended by exactly one assistant turn, the terminal one.
\<close>

theorem C5_generate_document:
  assumes "\<not> (blank (input st) \<and> truthy (activeSection st) \<and> \<not> isReviewedSectionDraftActive st)"
    and "res_action res = Some ''generate_document''"
    and "res_all_drafts res = Some all_drafts"
  shows "drafts (fst (handleDraftChat (Decoded res) st)) = all_drafts
       \<and> isDraftingComplete (fst (handleDraftChat (Decoded res) st))
       \<and> draftMessages (fst (handleDraftChat (Decoded res) st))
           = (draftMessages st
               @ (if truthy (activeSection st) \<and> \<not> isReviewedSectionDraftActive st
                  then [user_turn (input st)] else []))
             @ [assistant_turn
                 ''## **We have completed all the sections. Download the draft from draft section.**'']
       \<and> role (assistant_turn
             ''## **We have completed all the sections. Download the draft from draft section.**'')
           = Assistant"
  using assms
  by (simp add: handleDraftChat_def Let_def draft_reply_def assistant_turn_def)

theorem C5_generate_document_witness:
  "\<not> (blank ''ok'' \<and> truthy (Some ''Intro'') \<and> \<not> False)
   \<and> drafts (fst (handleDraftChat (Decoded document_reply)
        (initial_store\<lparr>input := ''ok'', activeSection := Some ''Intro'',
           drafts := [(''Intro'', Some placeholder)]\<rparr>)))
      = [(''Intro'', Some ''Text one.''), (''Terms'', Some [])]
   \<and> isDraftingComplete (fst (handleDraftChat (Decoded document_reply)
        (initial_store\<lparr>input := ''ok'', activeSection := Some ''Intro'',
           drafts := [(''Intro'', Some placeholder)]\<rparr>)))
   \<and> draftMessages (fst (handleDraftChat (Decoded document_reply)
        (initial_store\<lparr>input := ''ok'', activeSection := Some ''Intro'',
           drafts := [(''Intro'', Some placeholder)]\<rparr>)))
      = [user_turn ''ok'', assistant_turn
          ''## **We have completed all the sections. Download the draft from draft section.**'']"
proof -
  let ?st = "initial_store\<lparr>input := ''ok'', activeSection := Some ''Intro'',
           drafts := [(''Intro'', Some placeholder)]\<rparr>"
  have nb: "\<not> blank ''ok''"
    by (simp add: blank_iff is_space_def)
  then have g: "\<not> (blank (input ?st) \<and> truthy (activeSection ?st)
                  \<and> \<not> isReviewedSectionDraftActive ?st)"
    by simp
  have a: "res_action document_reply = Some ''generate_document''"
    and d: "res_all_drafts document_reply
              = Some [(''Intro'', Some ''Text one.''), (''Terms'', Some [])]"
    by (simp_all add: document_reply_def)
  note C5_generate_document [OF g a d]
  moreover have "truthy (activeSection ?st) \<and> \<not> isReviewedSectionDraftActive ?st"
    by (simp add: truthy_def initial_store_def)
  ultimately have "drafts (fst (handleDraftChat (Decoded document_reply) ?st))
        = [(''Intro'', Some ''Text one.''), (''Terms'', Some [])]"
    and "isDraftingComplete (fst (handleDraftChat (Decoded document_reply) ?st))"
    and "draftMessages (fst (handleDraftChat (Decoded document_reply) ?st))
        = [user_turn ''ok'', assistant_turn
          ''## **We have completed all the sections. Download the draft from draft section.**'']"
    by (simp_all add: initial_store_def)
  with nb show ?thesis by blast
qed

section \<open>Transport failures\<close>

text \<open>
  After a failed call the initial chat is in the stage it was in, so the next submission
  with a non-blank input issues a request again and extends the transcript.
\<close>

lemma handleSend_next_call:
  assumes "\<not> blank t"
    and "initialChatStep s = IdeaSubmission \<or> initialChatStep s = QuestionResponse"
  shows "\<exists>req rest. snd (handleSend rep (s\<lparr>input := t\<rparr>)) = Some req
           \<and> messages (fst (handleSend rep (s\<lparr>input := t\<rparr>))) = messages s @ user_turn t # rest"
  using assms
  by (cases rep)
     (auto simp: handleSend_def Let_def idea_submission_reply_def question_response_reply_def
        structure_review_def setContractSections_def)

text \<open>
  C3. When \<^verbatim>\<open>chatWithDraftAgent\<close> throws (the network failed or the status was not 2xx),
  the handler catches the error and returns a store: in \<^verbatim>\<open>handleSend\<close> (which calls the
  agent in the stages "idea-submission" and "question-response") and in
  \<^verbatim>\<open>handleDraftChat\<close> alike the stage is unchanged, the transcript is the one the request
  was sent with (the user's turn included) extended by exactly one assistant turn, the
  error message, and nothing else changes but the cleared input and the loading flag. The
  store is usable afterwards: the next submission with a non-blank input issues a request.
  In the other stages \<^verbatim>\<open>handleSend\<close> issues no request, so no call can fail there.
\<close>

theorem C3_transport_failure:
  "(\<not> blank (input st)
      \<and> (initialChatStep st = IdeaSubmission \<or> initialChatStep st = QuestionResponse) \<longrightarrow>
      fst (handleSend (Rejected m) st)
        = st\<lparr>messages := messages st
                 @ [user_turn (input st), assistant_turn (userErrorMessage m)],
              input := [], loading := False\<rparr>
      \<and> initialChatStep (fst (handleSend (Rejected m) st)) = initialChatStep st
      \<and> (\<forall>t rep. \<not> blank t \<longrightarrow>
            (\<exists>req rest.
               snd (handleSend rep ((fst (handleSend (Rejected m) st))\<lparr>input := t\<rparr>)) = Some req
               \<and> messages (fst (handleSend rep ((fst (handleSend (Rejected m) st))\<lparr>input := t\<rparr>)))
                   = messages (fst (handleSend (Rejected m) st)) @ user_turn t # rest)))
   \<and> (\<not> (blank (input st) \<and> truthy (activeSection st) \<and> \<not> isReviewedSectionDraftActive st) \<longrightarrow>
      fst (handleDraftChat (Rejected m) st)
        = st\<lparr>draftMessages := draftMessages st
                 @ (if truthy (activeSection st) \<and> \<not> isReviewedSectionDraftActive st
                    then [user_turn (input st)] else [])
                 @ [assistant_turn ''I apologize, but I encountered an error. Please try again.''],
              input := [], loading := False\<rparr>
      \<and> initialChatStep (fst (handleDraftChat (Rejected m) st)) = initialChatStep st
      \<and> (\<forall>t rep. \<not> blank t \<longrightarrow>
            snd (handleDraftChat rep ((fst (handleDraftChat (Rejected m) st))\<lparr>input := t\<rparr>)) \<noteq> None))
   \<and> (initialChatStep st \<noteq> IdeaSubmission \<and> initialChatStep st \<noteq> QuestionResponse \<longrightarrow>
        snd (handleSend rep st) = None)
   \<and> role (assistant_turn e) = Assistant"
proof (intro conjI impI allI)
  assume a: "\<not> blank (input st)
      \<and> (initialChatStep st = IdeaSubmission \<or> initialChatStep st = QuestionResponse)"
  then show eq: "fst (handleSend (Rejected m) st)
        = st\<lparr>messages := messages st
                 @ [user_turn (input st), assistant_turn (userErrorMessage m)],
              input := [], loading := False\<rparr>"
    by (auto simp: handleSend_def Let_def)
  then show stage: "initialChatStep (fst (handleSend (Rejected m) st)) = initialChatStep st"
    by simp
  fix t rep
  assume "\<not> blank t"
  moreover from a stage
  have "initialChatStep (fst (handleSend (Rejected m) st)) = IdeaSubmission
        \<or> initialChatStep (fst (handleSend (Rejected m) st)) = QuestionResponse"
    by simp
  ultimately show "\<exists>req rest.
       snd (handleSend rep ((fst (handleSend (Rejected m) st))\<lparr>input := t\<rparr>)) = Some req
       \<and> messages (fst (handleSend rep ((fst (handleSend (Rejected m) st))\<lparr>input := t\<rparr>)))
           = messages (fst (handleSend (Rejected m) st)) @ user_turn t # rest"
    by (rule handleSend_next_call)
next
  assume a: "\<not> (blank (input st) \<and> truthy (activeSection st) \<and> \<not> isReviewedSectionDraftActive st)"
  then show eq: "fst (handleDraftChat (Rejected m) st)
        = st\<lparr>draftMessages := draftMessages st
                 @ (if truthy (activeSection st) \<and> \<not> isReviewedSectionDraftActive st
                    then [user_turn (input st)] else [])
                 @ [assistant_turn ''I apologize, but I encountered an error. Please try again.''],
              input := [], loading := False\<rparr>"
    by (auto simp: handleDraftChat_def Let_def)
  then show "initialChatStep (fst (handleDraftChat (Rejected m) st)) = initialChatStep st"
    by simp
  fix t rep
  assume "\<not> blank t"
  then show "snd (handleDraftChat rep ((fst (handleDraftChat (Rejected m) st))\<lparr>input := t\<rparr>)) \<noteq> None"
    by (simp add: handleDraftChat_def Let_def)
next
  assume "initialChatStep st \<noteq> IdeaSubmission \<and> initialChatStep st \<noteq> QuestionResponse"
  then show "snd (handleSend rep st) = None"
    by (simp add: handleSend_def Let_def)
next
  show "role (assistant_turn e) = Assistant" by (simp add: assistant_turn_def)
qed

theorem C3_transport_failure_witness:
  "\<not> blank ''Draft an NDA''
   \<and> fst (handleSend (Rejected ''HTTP error! status: 500'')
        (initial_store\<lparr>input := ''Draft an NDA''\<rparr>))
      = initial_store\<lparr>messages := [user_turn ''Draft an NDA'', assistant_turn
           ''Server connection error. Please ensure the backend server is running.'']\<rparr>
   \<and> initialChatStep (fst (handleSend (Rejected ''HTTP error! status: 500'')
        (initial_store\<lparr>input := ''Draft an NDA''\<rparr>))) = IdeaSubmission
   \<and> fst (handleDraftChat (Rejected ''HTTP error! status: 500'')
        (initial_store\<lparr>input := ''Draft an NDA''\<rparr>))
      = initial_store\<lparr>draftMessages := [assistant_turn
           ''I apologize, but I encountered an error. Please try again.'']\<rparr>
   \<and> snd (handleDraftChat (Decoded question_reply)
        ((fst (handleDraftChat (Rejected ''HTTP error! status: 500'')
           (initial_store\<lparr>input := ''Draft an NDA''\<rparr>)))\<lparr>input := ''Draft an NDA''\<rparr>)) \<noteq> None"
proof -
  let ?st = "initial_store\<lparr>input := ''Draft an NDA''\<rparr>"
  let ?m = "''HTTP error! status: 500''"
  have nb: "\<not> blank ''Draft an NDA''"
    by (simp add: blank_iff is_space_def)
  then have h1: "\<not> blank (input ?st)
      \<and> (initialChatStep ?st = IdeaSubmission \<or> initialChatStep ?st = QuestionResponse)"
    by (simp add: initial_store_def)
  from nb have h2: "\<not> (blank (input ?st) \<and> truthy (activeSection ?st)
      \<and> \<not> isReviewedSectionDraftActive ?st)"
    by simp
  note fail = C3_transport_failure [of ?st ?m]
  from fail h1 have "fst (handleSend (Rejected ?m) ?st)
        = ?st\<lparr>messages := messages ?st @ [user_turn (input ?st), assistant_turn (userErrorMessage ?m)],
              input := [], loading := False\<rparr>"
    by blast
  then have a: "fst (handleSend (Rejected ?m) ?st)
      = initial_store\<lparr>messages := [user_turn ''Draft an NDA'', assistant_turn
           ''Server connection error. Please ensure the backend server is running.'']\<rparr>"
    by (simp add: initial_store_def userErrorMessage_def)
  from fail h1 have "initialChatStep (fst (handleSend (Rejected ?m) ?st)) = initialChatStep ?st"
    by blast
  then have b: "initialChatStep (fst (handleSend (Rejected ?m) ?st)) = IdeaSubmission"
    by (simp add: initial_store_def)
  from fail h2 have "fst (handleDraftChat (Rejected ?m) ?st)
        = ?st\<lparr>draftMessages := draftMessages ?st
                 @ (if truthy (activeSection ?st) \<and> \<not> isReviewedSectionDraftActive ?st
                    then [user_turn (input ?st)] else [])
                 @ [assistant_turn ''I apologize, but I encountered an error. Please try again.''],
              input := [], loading := False\<rparr>"
    by blast
  then have c: "fst (handleDraftChat (Rejected ?m) ?st)
      = initial_store\<lparr>draftMessages := [assistant_turn
           ''I apologize, but I encountered an error. Please try again.'']\<rparr>"
    by (simp add: initial_store_def truthy_def)
  from fail h2 have "\<forall>t rep. \<not> blank t \<longrightarrow>
      snd (handleDraftChat rep ((fst (handleDraftChat (Rejected ?m) ?st))\<lparr>input := t\<rparr>)) \<noteq> None"
    by blast
  with nb have d: "snd (handleDraftChat (Decoded question_reply)
      ((fst (handleDraftChat (Rejected ?m) ?st))\<lparr>input := ''Draft an NDA''\<rparr>)) \<noteq> None"
    by blast
  from nb a b c d show ?thesis by blast
qed

section \<open>Session assignment\<close>

text \<open>
  C6, as the claim states it, fails: a non-empty session id is not left unchanged. In the
  stage "question-response" with the session id "s1", a structure review that returns
  the session id "s2" leaves the store with "s2".
\<close>

theorem C6_session_overwritten:
  "session_id (initial_store\<lparr>session_id := Some ''s1'', initialChatStep := QuestionResponse,
       input := ''ok''\<rparr>) = Some ''s1''
   \<and> session_id (fst (handleSend (Decoded review_reply)
       (initial_store\<lparr>session_id := Some ''s1'', initialChatStep := QuestionResponse,
          input := ''ok''\<rparr>))) = Some ''s2''"
  by (simp add: handleSend_def Let_def question_response_reply_def structure_review_def
        setContractSections_def review_reply_def blank_def trim_def is_space_def)

text \<open>
  C6, amended. A call of \<^verbatim>\<open>handleSend\<close> assigns the session id at most once: only for an
  interrupt reply with action \<^verbatim>\<open>get_structure_review\<close>, and then it stores the session id
  of the reply whatever was set before. Every other reply, a blank input, the other stages
  and every call of \<^verbatim>\<open>handleDraftChat\<close> leave the session id as it was.
\<close>

theorem C6_session_assignment:
  "session_id (fst (handleSend rep st))
     = (case rep of
          Decoded res \<Rightarrow>
            if \<not> blank (input st)
               \<and> (initialChatStep st = IdeaSubmission \<or> initialChatStep st = QuestionResponse)
               \<and> res_type res = Some ''interrupt''
               \<and> res_action res = Some ''get_structure_review''
            then res_session_id res else session_id st
        | _ \<Rightarrow> session_id st)
   \<and> session_id (fst (handleDraftChat rep st)) = session_id st"
  by (cases rep)
     (auto simp: handleSend_def handleDraftChat_def Let_def idea_submission_reply_def
        question_response_reply_def structure_review_def setContractSections_def draft_reply_def
        split: option.splits)

theorem C6_session_assignment_witness:
  "session_id (fst (handleSend (Decoded question_reply)
       (initial_store\<lparr>session_id := Some ''s1'', input := ''ok''\<rparr>))) = Some ''s1''
   \<and> session_id (fst (handleSend (Decoded review_reply)
       (initial_store\<lparr>session_id := Some ''s1'', input := ''ok''\<rparr>))) = Some ''s2''
   \<and> session_id (fst (handleDraftChat (Decoded review_reply)
       (initial_store\<lparr>session_id := Some ''s1'', input := ''ok''\<rparr>))) = Some ''s1''"
proof -
  let ?st = "initial_store\<lparr>session_id := Some ''s1'', input := ''ok''\<rparr>"
  have nb: "\<not> blank (input ?st)"
    by (simp add: blank_iff is_space_def)
  have stg: "initialChatStep ?st = IdeaSubmission"
    by (simp add: initial_store_def)
  from C6_session_assignment [of "Decoded question_reply" ?st]
  have a: "session_id (fst (handleSend (Decoded question_reply) ?st)) = Some ''s1''"
    by (simp add: question_reply_def)
  from C6_session_assignment [of "Decoded review_reply" ?st] nb stg
  have b: "session_id (fst (handleSend (Decoded review_reply) ?st)) = Some ''s2''"
    by (simp add: review_reply_def)
  from C6_session_assignment [of "Decoded review_reply" ?st]
  have c: "session_id (fst (handleDraftChat (Decoded review_reply) ?st)) = Some ''s1''"
    by simp
  from a b c show ?thesis by blast
qed

section \<open>Placeholders after a change of the section list\<close>

lemma map_of_placeholders:
  "map_of (foldl (\<lambda>d step. AList.update (section_heading step) (Some p) d) prev secs) k
     = (if k \<in> section_heading ` set secs then Some (Some p) else map_of prev k)"
proof (induction secs arbitrary: prev)
  case Nil
  show ?case by simp
next
  case (Cons s secs)
  show ?case
    by (simp add: Cons.IH update_conv')
qed

lemma sections_effect_lookup:
  assumes "s \<in> set secs"
  shows "map_of (sections_effect secs prev) (section_heading s) = Some (Some placeholder)"
proof -
  from assms have "secs \<noteq> []" by auto
  with assms show ?thesis
    by (simp add: sections_effect_def map_of_placeholders)
qed

lemma edit_placeholder:
  assumes "r = Updated secs" and "s \<in> set secs"
  shows "contractSections (apply_edit r st) = secs"
    and "map_of (drafts (apply_edit r st)) (section_heading s) = Some (Some placeholder)"
  using assms by (simp_all add: apply_edit_def setContractSections_def sections_effect_lookup)

text \<open>
  C10. Whenever \<^verbatim>\<open>setContractSections\<close> is called with a non-empty list, the effect of
  the provider stores the placeholder under the heading of every section of the new list,
  whatever draft was stored there before. This holds for every caller: renaming a section
  (each keystroke in the heading field), deleting a section, deleting a subsection (when
  the delete is not rejected), and the arrival of the structure from the agent.
\<close>

theorem C10_placeholder_overwrite:
  "(\<forall>s\<in>set secs.
      contractSections (setContractSections secs st) = secs
      \<and> map_of (drafts (setContractSections secs st)) (section_heading s) = Some (Some placeholder))
   \<and> (i < length (contractSections st) \<longrightarrow>
        (\<forall>s\<in>set (contractSections
                 (apply_edit (updateSection (contractSections st) i Field_section_heading v) st)).
           map_of (drafts (apply_edit (updateSection (contractSections st) i Field_section_heading v) st))
             (section_heading s) = Some (Some placeholder))
        \<and> map_of (drafts (apply_edit (updateSection (contractSections st) i Field_section_heading v) st)) v
            = Some (Some placeholder))
   \<and> (\<forall>s\<in>set (contractSections (apply_edit (deleteSection (contractSections st) i) st)).
         map_of (drafts (apply_edit (deleteSection (contractSections st) i) st)) (section_heading s)
           = Some (Some placeholder))
   \<and> (i < length (contractSections st) \<and> 1 < length (subsections (contractSections st ! i)) \<longrightarrow>
        (\<forall>s\<in>set (contractSections (apply_edit (deleteSubsection (contractSections st) i j) st)).
           map_of (drafts (apply_edit (deleteSubsection (contractSections st) i j) st))
             (section_heading s) = Some (Some placeholder)))
   \<and> (\<forall>s\<in>set (res_all_sections res).
         contractSections (structure_review res st) = res_all_sections res
         \<and> map_of (drafts (structure_review res st)) (section_heading s) = Some (Some placeholder))"
proof (intro conjI impI ballI)
  fix s assume "s \<in> set secs"
  then show "contractSections (setContractSections secs st) = secs"
    and "map_of (drafts (setContractSections secs st)) (section_heading s) = Some (Some placeholder)"
    by (simp_all add: setContractSections_def sections_effect_lookup)
next
  let ?cs = "contractSections st"
  let ?new = "?cs[i := (?cs ! i)\<lparr>section_heading := v\<rparr>]"
  assume i: "i < length ?cs"
  then have r: "updateSection ?cs i Field_section_heading v = Updated ?new"
    by (simp add: updateSection_def)
  {
    fix s
    assume "s \<in> set (contractSections (apply_edit (updateSection ?cs i Field_section_heading v) st))"
    with r have "s \<in> set ?new" by (simp add: edit_placeholder(1) apply_edit_def setContractSections_def)
    with r show "map_of (drafts (apply_edit (updateSection ?cs i Field_section_heading v) st))
             (section_heading s) = Some (Some placeholder)"
      by (rule edit_placeholder(2))
  }
  from i have "(?cs ! i)\<lparr>section_heading := v\<rparr> \<in> set ?new"
    by (simp add: set_update_memI)
  with r have "map_of (drafts (apply_edit (updateSection ?cs i Field_section_heading v) st))
      (section_heading ((?cs ! i)\<lparr>section_heading := v\<rparr>)) = Some (Some placeholder)"
    by (rule edit_placeholder(2))
  then show "map_of (drafts (apply_edit (updateSection ?cs i Field_section_heading v) st)) v
      = Some (Some placeholder)"
    by simp
next
  let ?cs = "contractSections st"
  have r: "deleteSection ?cs i = Updated (filter_index i ?cs)"
    by (simp add: deleteSection_def)
  fix s
  assume "s \<in> set (contractSections (apply_edit (deleteSection ?cs i) st))"
  with r have "s \<in> set (filter_index i ?cs)"
    by (simp add: apply_edit_def setContractSections_def)
  with r show "map_of (drafts (apply_edit (deleteSection ?cs i) st)) (section_heading s)
      = Some (Some placeholder)"
    by (rule edit_placeholder(2))
next
  let ?cs = "contractSections st"
  let ?new = "?cs[i := (?cs ! i)\<lparr>subsections := filter_index j (subsections (?cs ! i))\<rparr>]"
  assume "i < length ?cs \<and> 1 < length (subsections (?cs ! i))"
  then have r: "deleteSubsection ?cs i j = Updated ?new"
    by (simp add: deleteSubsection_def Let_def)
  fix s
  assume "s \<in> set (contractSections (apply_edit (deleteSubsection ?cs i j) st))"
  with r have "s \<in> set ?new"
    by (simp add: apply_edit_def setContractSections_def)
  with r show "map_of (drafts (apply_edit (deleteSubsection ?cs i j) st)) (section_heading s)
      = Some (Some placeholder)"
    by (rule edit_placeholder(2))
next
  fix s assume "s \<in> set (res_all_sections res)"
  then show "contractSections (structure_review res st) = res_all_sections res"
    and "map_of (drafts (structure_review res st)) (section_heading s) = Some (Some placeholder)"
    by (simp_all add: structure_review_def setContractSections_def sections_effect_lookup)
qed

theorem C10_placeholder_overwrite_witness:
  "map_of [(''Intro'', Some ''Text one.''), (''Terms'', Some ''Edited by the user'')] ''Intro''
     = Some (Some ''Text one.'')
   \<and> map_of (drafts (apply_edit
        (updateSection [intro_section, terms_section] 1 Field_section_heading ''Payment'')
        (initial_store\<lparr>contractSections := [intro_section, terms_section],
           drafts := [(''Intro'', Some ''Text one.''), (''Terms'', Some ''Edited by the user'')]\<rparr>)))
        ''Intro'' = Some (Some placeholder)
   \<and> map_of (drafts (apply_edit
        (updateSection [intro_section, terms_section] 1 Field_section_heading ''Payment'')
        (initial_store\<lparr>contractSections := [intro_section, terms_section],
           drafts := [(''Intro'', Some ''Text one.''), (''Terms'', Some ''Edited by the user'')]\<rparr>)))
        ''Payment'' = Some (Some placeholder)"
proof -
  let ?st = "initial_store\<lparr>contractSections := [intro_section, terms_section],
           drafts := [(''Intro'', Some ''Text one.''), (''Terms'', Some ''Edited by the user'')]\<rparr>"
  have cs: "contractSections ?st = [intro_section, terms_section]" by simp
  have i: "1 < length (contractSections ?st)" by simp
  note rename = C10_placeholder_overwrite [of _ ?st 1 "''Payment''"]
  have mem: "intro_section \<in> set (contractSections
      (apply_edit (updateSection (contractSections ?st) 1 Field_section_heading ''Payment'') ?st))"
    by (simp add: updateSection_def apply_edit_def setContractSections_def)
  from rename i mem
  have "map_of (drafts (apply_edit
          (updateSection (contractSections ?st) 1 Field_section_heading ''Payment'') ?st))
        (section_heading intro_section) = Some (Some placeholder)"
    by blast
  then have a: "map_of (drafts (apply_edit
        (updateSection [intro_section, terms_section] 1 Field_section_heading ''Payment'') ?st))
        ''Intro'' = Some (Some placeholder)"
    by (simp add: intro_section_def)
  from rename i
  have "map_of (drafts (apply_edit
          (updateSection (contractSections ?st) 1 Field_section_heading ''Payment'') ?st))
        ''Payment'' = Some (Some placeholder)"
    by blast
  then have b: "map_of (drafts (apply_edit
        (updateSection [intro_section, terms_section] 1 Field_section_heading ''Payment'') ?st))
        ''Payment'' = Some (Some placeholder)"
    by simp
  have c: "map_of [(''Intro'', Some ''Text one.''), (''Terms'', Some ''Edited by the user'')] ''Intro''
     = Some (Some ''Text one.'')"
    by simp
  from c a b show ?thesis by blast
qed

section \<open>The blocks of the exported document\<close>

lemma concat_split_newlines:
  "concat (split_newlines cur r s) = cur @ filter (\<lambda>x. x \<noteq> newline) s"
  by (induction s arbitrary: cur r) simp_all

lemma concat_nonempty: "concat (filter (\<lambda>l. l \<noteq> []) xs) = concat xs"
  by (induction xs) simp_all

lemma split_newlines_no_newline:
  "newline \<notin> set cur \<Longrightarrow> l \<in> set (split_newlines cur r s) \<Longrightarrow> newline \<notin> set l"
proof (induction s arbitrary: cur r)
  case Nil
  then show ?case by simp
next
  case (Cons a s)
  show ?case
  proof (cases "a = newline")
    case False
    with Cons.prems have "newline \<notin> set (cur @ [a])"
      and "l \<in> set (split_newlines (cur @ [a]) False s)"
      by auto
    then show ?thesis by (rule Cons.IH)
  next
    case True
    have empty: "newline \<notin> set ([] :: string)" by simp
    show ?thesis
    proof (cases "l = cur")
      case True
      with Cons.prems(1) show ?thesis by simp
    next
      case False
      with Cons.prems(2) \<open>a = newline\<close>
      have "l \<in> set (split_newlines cur True s) \<or> l \<in> set (split_newlines [] True s)"
        by (auto split: if_splits)
      then show ?thesis
      proof
        assume "l \<in> set (split_newlines cur True s)"
        with Cons.prems(1) show ?thesis by (rule Cons.IH)
      next
        assume "l \<in> set (split_newlines [] True s)"
        with empty show ?thesis by (rule Cons.IH)
      qed
    qed
  qed
qed

lemma split_newlines_single:
  "newline \<notin> set s \<Longrightarrow> split_newlines cur r s = [cur @ s]"
  by (induction s arbitrary: cur r) auto

lemma formatted_sections_defined:
  "formatted_sections (map (\<lambda>(h, c). (h, Some c)) pairs)
     = Inr (concat (map (\<lambda>(h, c). createFormattedSection h c) pairs))"
  by (induction pairs) auto

text \<open>
  C2, as the claim states it, fails: the exporter has no test on the body of a pair. For
  the registry with section A of body "  " (white space only) and section B of body
  "hello", the document has the heading of A and a paragraph of two spaces, before the
  heading and the paragraph of B.
\<close>

theorem C2_blank_body_exported:
  "blank ''  ''
   \<and> generateDraftsDocx [(''A'', Some ''  ''), (''B'', Some ''hello'')] None
      = Inr \<lparr>doc_children = [Heading ''A'', Body ''  '', Heading ''B'', Body ''hello''],
             link_download = ''draft.docx''\<rparr>"
  by (simp add: generateDraftsDocx_def createFormattedSection_def newline_def js_or_def
        blank_def trim_def is_space_def)

text \<open>
  C2, amended. The exporter skips no pair: for every (heading, body) pair of a registry
  of texts, in the order of the registry, the document has the heading block followed by one paragraph block per
  non-empty piece of the body between runs of line feeds. The pieces are non-empty, hold
  no line feed, and together are the body without its line feeds; a non-empty body
  without line feeds, white space included, is one paragraph. (So a pair adds no
  paragraph only when its body is empty or all line feeds, and its heading is still
  there.)
\<close>

theorem C2_export_every_pair:
  "generateDraftsDocx (map (\<lambda>(h, c). (h, Some c)) pairs) t
     = Inr \<lparr>doc_children =
              concat (map (\<lambda>(h, c). Heading h # map Body
                (filter (\<lambda>l. l \<noteq> []) (split_newlines [] False c))) pairs),
            link_download = js_or t ''draft'' @ ''.docx''\<rparr>
   \<and> concat (filter (\<lambda>l. l \<noteq> []) (split_newlines [] False c)) = filter (\<lambda>x. x \<noteq> newline) c
   \<and> (\<forall>l\<in>set (filter (\<lambda>l. l \<noteq> []) (split_newlines [] False c)). l \<noteq> [] \<and> newline \<notin> set l)
   \<and> (c \<noteq> [] \<and> newline \<notin> set c \<longrightarrow>
        filter (\<lambda>l. l \<noteq> []) (split_newlines [] False c) = [c])"
proof (intro conjI ballI impI)
  have "(\<lambda>(h, c). createFormattedSection h c)
      = (\<lambda>(h, c). Heading h # map Body (filter (\<lambda>l. l \<noteq> []) (split_newlines [] False c)))"
    by (simp add: createFormattedSection_def fun_eq_iff)
  then show "generateDraftsDocx (map (\<lambda>(h, c). (h, Some c)) pairs) t
     = Inr \<lparr>doc_children =
              concat (map (\<lambda>(h, c). Heading h # map Body
                (filter (\<lambda>l. l \<noteq> []) (split_newlines [] False c))) pairs),
            link_download = js_or t ''draft'' @ ''.docx''\<rparr>"
    by (simp add: generateDraftsDocx_def formatted_sections_defined)
next
  show "concat (filter (\<lambda>l. l \<noteq> []) (split_newlines [] False c)) = filter (\<lambda>x. x \<noteq> newline) c"
    by (simp add: concat_nonempty concat_split_newlines)
next
  fix l assume "l \<in> set (filter (\<lambda>l. l \<noteq> []) (split_newlines [] False c))"
  then have ne: "l \<noteq> []" and mem: "l \<in> set (split_newlines [] False c)" by simp_all
  show "l \<noteq> []" by (rule ne)
  have "newline \<notin> set ([] :: string)" by simp
  then show "newline \<notin> set l" using mem by (rule split_newlines_no_newline)
next
  assume "c \<noteq> [] \<and> newline \<notin> set c"
  then show "filter (\<lambda>l. l \<noteq> []) (split_newlines [] False c) = [c]"
    by (simp add: split_newlines_single)
qed

theorem C2_export_every_pair_witness:
  "generateDraftsDocx
     [(''Intro'', Some (''Line one'' @ [newline, newline] @ ''Line two'')), (''Terms'', Some '' '')]
     (Some ''NDA'')
     = Inr \<lparr>doc_children = [Heading ''Intro'', Body ''Line one'', Body ''Line two'',
                              Heading ''Terms'', Body '' ''],
            link_download = ''NDA.docx''\<rparr>
   \<and> filter (\<lambda>l. l \<noteq> []) (split_newlines [] False '' '') = ['' '']"
proof -
  let ?pairs = "[(''Intro'', ''Line one'' @ [newline, newline] @ ''Line two''), (''Terms'', '' '')]"
  note every = C2_export_every_pair [of ?pairs "Some ''NDA''" "'' ''"]
  have sp: "'' '' \<noteq> [] \<and> newline \<notin> set '' ''"
    by (simp add: newline_def)
  from every sp have one: "filter (\<lambda>l. l \<noteq> []) (split_newlines [] False '' '') = ['' '']"
    by blast
  from every have "generateDraftsDocx (map (\<lambda>(h, c). (h, Some c)) ?pairs) (Some ''NDA'')
     = Inr \<lparr>doc_children =
              concat (map (\<lambda>(h, c). Heading h # map Body
                (filter (\<lambda>l. l \<noteq> []) (split_newlines [] False c))) ?pairs),
            link_download = js_or (Some ''NDA'') ''draft'' @ ''.docx''\<rparr>"
    by blast
  then have two: "generateDraftsDocx
     [(''Intro'', Some (''Line one'' @ [newline, newline] @ ''Line two'')), (''Terms'', Some '' '')]
     (Some ''NDA'')
     = Inr \<lparr>doc_children = [Heading ''Intro'', Body ''Line one'', Body ''Line two'',
                              Heading ''Terms'', Body '' ''],
            link_download = ''NDA.docx''\<rparr>"
    by (simp add: js_or_def newline_def)
  from two one show ?thesis by blast
qed

section \<open>Exports with nothing to export\<close>

lemma blank_Nil: "blank []"
  by (simp add: blank_def trim_def)

lemma sections_content_no_entry:
  "\<forall>s\<in>set secs. \<exists>x. s = Some x \<and> \<not> (js_truthy (fs_heading x) \<and> js_truthy (fs_content x))
   \<Longrightarrow> sections_content secs = Inr []"
proof (induction secs)
  case Nil
  show ?case by simp
next
  case (Cons s secs)
  then obtain x where "s = Some x"
    and "\<not> (js_truthy (fs_heading x) \<and> js_truthy (fs_content x))"
    by auto
  moreover from Cons have "sections_content secs = Inr []" by simp
  ultimately show ?case by auto
qed

text \<open>
  C8, as the claim states it, fails on both export paths. With the single draft "Intro" of
  body "  " there is no non-blank body, yet \<^verbatim>\<open>handleDownloadContract\<close> saves a file (its
  test is on the formatted content, which holds the heading markers), and so does the
  Download button of the draft panel, which has no test at all: with an empty registry it
  saves a document with no block.
\<close>

theorem C8_blank_bodies_exported:
  "blank ''  ''
   \<and> handleDownloadContract (Some whitespace_contract)
      = Saved \<lparr>doc_children = [Heading ''Intro'', Body ''  ''],
               link_download = ''My NDA!!.docx''\<rparr>
   \<and> download_button (initial_store\<lparr>isDraftingComplete := True,
        drafts := [(''Intro'', Some ''  '')]\<rparr>)
      = Some (Inr \<lparr>doc_children = [Heading ''Intro'', Body ''  ''],
                   link_download = ''draft.docx''\<rparr>)
   \<and> download_button (initial_store\<lparr>isDraftingComplete := True\<rparr>)
      = Some (Inr \<lparr>doc_children = [], link_download = ''draft.docx''\<rparr>)"
  by (simp add: handleDownloadContract_def whitespace_contract_def formattedContent_def
        formatted_entry_def contractDrafts_def contractTitle_def filename_def js_undefined_def
        download_button_def initial_store_def generateDraftsDocx_def createFormattedSection_def
        newline_def js_or_def blank_def trim_def is_space_def)

text \<open>
  C8, amended. In the export of the upload tab (\<^verbatim>\<open>handleDownloadContract\<close>), when the
  finished contract yields no (heading, text) entry, the export stops with the blocking
  alert and no file is saved. There is no entry when the sections array, if the contract
  has one, holds only sections that lack a truthy heading or a truthy content, or when,
  without a sections array, the drafts object is missing or has no entry.
\<close>

theorem C8_upload_export_alert:
  "(fc_sections fc = Some secs
      \<and> (\<forall>s\<in>set secs. \<exists>x. s = Some x
            \<and> \<not> (js_truthy (fs_heading x) \<and> js_truthy (fs_content x))) \<longrightarrow>
      handleDownloadContract (Some fc)
        = Alerted ''No contract content found to download. Please try generating the contract again.'')
   \<and> (fc_sections fc = None \<and> (fc_drafts fc = None \<or> fc_drafts fc = Some []) \<longrightarrow>
      handleDownloadContract (Some fc)
        = Alerted ''No contract content found to download. Please try generating the contract again.'')"
proof (intro conjI impI)
  assume "fc_sections fc = Some secs
      \<and> (\<forall>s\<in>set secs. \<exists>x. s = Some x
            \<and> \<not> (js_truthy (fs_heading x) \<and> js_truthy (fs_content x)))"
  then have "formattedContent fc = Inr []"
    by (simp add: formattedContent_def sections_content_no_entry)
  then show "handleDownloadContract (Some fc)
        = Alerted ''No contract content found to download. Please try generating the contract again.''"
    by (simp add: handleDownloadContract_def blank_Nil)
next
  assume "fc_sections fc = None \<and> (fc_drafts fc = None \<or> fc_drafts fc = Some [])"
  then have "formattedContent fc = Inr []"
    by (auto simp: formattedContent_def)
  then show "handleDownloadContract (Some fc)
        = Alerted ''No contract content found to download. Please try generating the contract again.''"
    by (simp add: handleDownloadContract_def blank_Nil)
qed

theorem C8_upload_export_alert_witness:
  "fc_sections empty_contract = None \<and> fc_drafts empty_contract = Some []
   \<and> handleDownloadContract (Some unfilled_contract)
      = Alerted ''No contract content found to download. Please try generating the contract again.''
   \<and> handleDownloadContract (Some empty_contract)
      = Alerted ''No contract content found to download. Please try generating the contract again.''"
proof -
  let ?secs = "[Some \<lparr>fs_heading = JText ''Intro'', fs_content = JText []\<rparr>]"
  have a: "fc_sections unfilled_contract = Some ?secs
      \<and> (\<forall>s\<in>set ?secs. \<exists>x. s = Some x
            \<and> \<not> (js_truthy (fs_heading x) \<and> js_truthy (fs_content x)))"
    by (simp add: unfilled_contract_def)
  have b: "fc_sections empty_contract = None \<and> fc_drafts empty_contract = Some []"
    by (simp add: empty_contract_def)
  from C8_upload_export_alert [of unfilled_contract ?secs] a
  have c: "handleDownloadContract (Some unfilled_contract)
      = Alerted ''No contract content found to download. Please try generating the contract again.''"
    by blast
  from C8_upload_export_alert [of empty_contract] b
  have d: "handleDownloadContract (Some empty_contract)
      = Alerted ''No contract content found to download. Please try generating the contract again.''"
    by blast
  from b c d show ?thesis by blast
qed

text \<open>
  Beyond the alert of C8, the upload tab's export has three more outcomes on contracts that
  do yield an entry. A draft that is \<^verbatim>\<open>null\<close> passes the test on the formatted content
  (it reads "null" there) and makes the exporter throw: the \<^verbatim>\<open>catch\<close> block shows its
  alert and no file is saved. A section headed "__proto__" passes the test and leaves
  \<^verbatim>\<open>contractDrafts\<close> without a property: a document with no block is saved. Headings
  that are array indices come first in the document, in numeric order.
\<close>

lemma null_draft_error_alert:
  "handleDownloadContract (Some null_draft_contract) = Alerted_error TypeError"
  by (simp add: handleDownloadContract_def null_draft_contract_def formattedContent_def
        formatted_entry_def contractDrafts_def contractTitle_def filename_def js_undefined_def
        js_null_def generateDraftsDocx_def blank_def trim_def is_space_def newline_def)

lemma proto_heading_empty_document:
  "handleDownloadContract (Some proto_contract)
     = Saved \<lparr>doc_children = [], link_download = ''Lease.docx''\<rparr>"
  by (simp add: handleDownloadContract_def proto_contract_def formattedContent_def
        formatted_entry_def contractDrafts_def contractTitle_def filename_def js_undefined_def
        js_put_def generateDraftsDocx_def blank_def trim_def is_space_def newline_def js_or_def)

lemma index_headings_first:
  "handleDownloadContract (Some numbered_contract)
     = Saved \<lparr>doc_children = [Heading ''2'', Body ''A'', Heading ''10'', Body ''C'',
                               Heading ''Terms'', Body ''B''],
              link_download = ''Lease.docx''\<rparr>"
  by (simp add: handleDownloadContract_def numbered_contract_def formattedContent_def
        formatted_entry_def contractDrafts_def contractTitle_def filename_def js_undefined_def
        js_put_def array_index_def is_digit_def decimal_def generateDraftsDocx_def
        createFormattedSection_def blank_def trim_def is_space_def newline_def js_or_def)

section \<open>The suggested file name\<close>

text \<open>
  C9, as the claim states it, fails: the exporter does not sanitize the title. From the
  draft panel, with the title "My NDA!!", the suggested file name is "My NDA!!.docx",
  not "My_NDA.docx".
\<close>

theorem C9_title_not_sanitized:
  "download_button (initial_store\<lparr>isDraftingComplete := True,
       selectedTitle := Some ''My NDA!!'',
       drafts := [(''Intro'', Some ''Text one.''), (''Terms'', Some [])]\<rparr>)
     = Some (Inr \<lparr>doc_children = [Heading ''Intro'', Body ''Text one.'', Heading ''Terms''],
                  link_download = ''My NDA!!.docx''\<rparr>)
   \<and> ''My NDA!!.docx'' \<noteq> ''My_NDA.docx''"
  by (simp add: download_button_def generateDraftsDocx_def createFormattedSection_def
        newline_def js_or_def)

text \<open>
  C9, amended. The exporter suggests the file name made of the title it is given,
  unchanged, followed by ".docx", and of "draft" in place of the title when the title is
  empty or missing; from the draft panel the title is the selected title.
\<close>

theorem C9_suggested_filename:
  "(generateDraftsDocx ds t = Inr d \<longrightarrow>
      link_download d
        = (case t of None \<Rightarrow> ''draft'' | Some n \<Rightarrow> if n = [] then ''draft'' else n) @ ''.docx'')
   \<and> (download_button st = Some (Inr d') \<longrightarrow>
      link_download d'
        = (case selectedTitle st of None \<Rightarrow> ''draft'' | Some n \<Rightarrow> if n = [] then ''draft'' else n)
          @ ''.docx'')"
  by (auto simp: generateDraftsDocx_def download_button_def js_or_def
        split: sum.splits option.splits if_splits)

theorem C9_suggested_filename_witness:
  "generateDraftsDocx [(''Intro'', Some ''Text one.'')] (Some ''NDA 2024'')
     = Inr \<lparr>doc_children = [Heading ''Intro'', Body ''Text one.''],
            link_download = ''NDA 2024.docx''\<rparr>
   \<and> download_button (initial_store\<lparr>isDraftingComplete := True,
        drafts := [(''Intro'', Some ''Text one.'')]\<rparr>)
     = Some (Inr \<lparr>doc_children = [Heading ''Intro'', Body ''Text one.''],
                  link_download = ''draft.docx''\<rparr>)"
proof -
  let ?d = "\<lparr>doc_children = [Heading ''Intro'', Body ''Text one.''],
            link_download = ''NDA 2024.docx''\<rparr>"
  let ?st = "initial_store\<lparr>isDraftingComplete := True, drafts := [(''Intro'', Some ''Text one.'')]\<rparr>"
  let ?blocks = "[Heading ''Intro'', Body ''Text one.'']"
  obtain n where run: "generateDraftsDocx [(''Intro'', Some ''Text one.'')] (Some ''NDA 2024'')
      = Inr \<lparr>doc_children = ?blocks, link_download = n\<rparr>"
    by (simp add: generateDraftsDocx_def createFormattedSection_def newline_def)
  with C9_suggested_filename
    [of "[(''Intro'', Some ''Text one.'')]" "Some ''NDA 2024''"
        "\<lparr>doc_children = ?blocks, link_download = n\<rparr>"]
  have "n = ''NDA 2024.docx''" by simp
  with run have a: "generateDraftsDocx [(''Intro'', Some ''Text one.'')] (Some ''NDA 2024'')
      = Inr ?d" by simp
  obtain n' where click: "download_button ?st
      = Some (Inr \<lparr>doc_children = ?blocks, link_download = n'\<rparr>)"
    by (simp add: download_button_def generateDraftsDocx_def createFormattedSection_def
          newline_def)
  with C9_suggested_filename
    [of _ _ _ ?st "\<lparr>doc_children = ?blocks, link_download = n'\<rparr>"]
  have "n' = ''draft.docx''" by (simp add: initial_store_def)
  with click have b: "download_button ?st
     = Some (Inr \<lparr>doc_children = ?blocks, link_download = ''draft.docx''\<rparr>)" by simp
  from a b show ?thesis by blast
qed

text \<open>
  The name that the upload tab computes for the same title, and sets aside: the file it
  saves takes its name from the exporter.
\<close>

lemma filename_of_whitespace_contract:
  "filename whitespace_contract = Inr ''My_NDA_Contract.docx''"
  by (simp add: filename_def whitespace_contract_def contractTitle_def is_alnum_def
        is_space_def)

end
